theory Spec2Isabelle
  imports Main "HOL-Library.Multiset" "HOL-Library.Code_Target_Nat"
begin

section \<open>JavaScript strings\<close>

text \<open>
  A JavaScript string is a sequence of UTF-16 code units. It is modelled as the list of
  its code units, each a natural number. String literals of the source are written with
  \<open>js\<close>, which maps every ASCII character to its code unit.
\<close>

type_synonym jsstring = "nat list"

definition js :: "string \<Rightarrow> jsstring" where
  "js s = map of_char s"

text \<open>
  \<open>String.prototype.trim\<close> strips WhiteSpace and LineTerminator code points from both
  ends: TAB, VT, FF, SP, NBSP, ZWNBSP, the Unicode space separators, LF, CR, LS and PS.
\<close>

definition is_ws :: "nat \<Rightarrow> bool" where
  "is_ws c \<longleftrightarrow>
     c = 9 \<or> c = 10 \<or> c = 11 \<or> c = 12 \<or> c = 13 \<or> c = 32 \<or> c = 160 \<or> c = 5760
     \<or> (8192 \<le> c \<and> c \<le> 8202) \<or> c = 8232 \<or> c = 8233 \<or> c = 8239 \<or> c = 8287
     \<or> c = 12288 \<or> c = 65279"

definition trim :: "jsstring \<Rightarrow> jsstring" where
  "trim s = rev (dropWhile is_ws (rev (dropWhile is_ws s)))"

text \<open>\<open>s.split(c)\<close> for a separator of one code unit: never the empty array.\<close>

fun split_on :: "nat \<Rightarrow> jsstring \<Rightarrow> jsstring list" where
  "split_on c [] = [[]]"
| "split_on c (x # xs) =
     (if x = c then [] # split_on c xs
      else (case split_on c xs of
              [] \<Rightarrow> [[x]]
            | y # ys \<Rightarrow> (x # y) # ys))"

text \<open>\<open>parts.join(sep)\<close>.\<close>

fun join :: "jsstring \<Rightarrow> jsstring list \<Rightarrow> jsstring" where
  "join sep [] = []"
| "join sep [x] = x"
| "join sep (x # y # ys) = x @ sep @ join sep (y # ys)"

definition startsWith :: "jsstring \<Rightarrow> nat \<Rightarrow> bool" where
  "startsWith s c = (case s of [] \<Rightarrow> False | x # _ \<Rightarrow> x = c)"

definition js_includes :: "jsstring \<Rightarrow> nat \<Rightarrow> bool" where
  "js_includes s c \<longleftrightarrow> c \<in> set s"

definition LF :: nat where "LF = 10"
definition EQ :: nat where "EQ = 61"
definition HASH :: nat where "HASH = 35"

text \<open>
  Number-to-string conversion of a template literal, for a non-negative integer below
  \<open>10^21\<close> (from there on JavaScript prints an exponent).
\<close>

fun show_nat :: "nat \<Rightarrow> jsstring" where
  "show_nat n = (if n < 10 then [48 + n] else show_nat (n div 10) @ [48 + n mod 10])"

declare show_nat.simps [simp del]

section \<open>Plain objects used as dictionaries\<close>

text \<open>
  \<open>rootVars\<close>, \<open>localVars\<close> and \<open>mergedVars\<close> are ordinary objects created by \<open>{}\<close>
  whose own properties all hold strings. An object is modelled as the list of its own
  properties in creation order. Three features of ordinary objects matter to the code:
  \<^item> assigning a string to the key \<open>__proto__\<close> runs the setter inherited from
    \<open>Object.prototype\<close>, which ignores a value that is neither an object nor null, so
    no own property is created;
  \<^item> \<open>Object.keys\<close> and \<open>Object.entries\<close> list the keys that are array indices
    (canonical decimal numerals below \<open>2^32 - 1\<close>) first, in ascending numeric order,
    and the other keys after them in creation order;
  \<^item> \<open>obj.hasOwnProperty\<close> is an ordinary property lookup: an own property of that
    name shadows the inherited method.
\<close>

type_synonym jsobject = "(jsstring \<times> jsstring) list"

text \<open>
  The errors the program meets: \<open>new Error(message)\<close>, the \<open>TypeError\<close> of calling a
  value that is not a function, the system error that \<open>spawn\<close> reports through the
  child's \<open>error\<close> event, and the system error that \<open>fs.readFileSync\<close> or
  \<open>fs.writeFileSync\<close> throws. Each carries its \<open>message\<close> and nothing else.
\<close>

datatype js_error =
    Error jsstring
  | TypeError jsstring
  | SpawnError jsstring
  | FsError jsstring

fun message :: "js_error \<Rightarrow> jsstring" where
  "message (Error m) = m"
| "message (TypeError m) = m"
| "message (SpawnError m) = m"
| "message (FsError m) = m"

definition has_own :: "jsobject \<Rightarrow> jsstring \<Rightarrow> bool" where
  "has_own obj k \<longleftrightarrow> k \<in> fst ` set obj"

primrec assign :: "jsstring \<Rightarrow> jsstring \<Rightarrow> jsobject \<Rightarrow> jsobject" where
  "assign k v [] = [(k, v)]"
| "assign k v (p # ps) = (if fst p = k then (k, v) # ps else p # assign k v ps)"

definition obj_set :: "jsobject \<Rightarrow> jsstring \<Rightarrow> jsstring \<Rightarrow> jsobject" where
  "obj_set obj k v = (if k = js ''__proto__'' then obj else assign k v obj)"

definition is_digit :: "nat \<Rightarrow> bool" where
  "is_digit c \<longleftrightarrow> 48 \<le> c \<and> c \<le> 57"

definition index_value :: "jsstring \<Rightarrow> nat" where
  "index_value k = foldl (\<lambda>n d. 10 * n + (d - 48)) 0 k"

definition is_array_index :: "jsstring \<Rightarrow> bool" where
  "is_array_index k \<longleftrightarrow>
     k \<noteq> [] \<and> list_all is_digit k \<and> (k = [48] \<or> \<not> startsWith k 48)
     \<and> index_value k \<le> 4294967294"

definition own_entries :: "jsobject \<Rightarrow> (jsstring \<times> jsstring) list" where
  "own_entries obj =
     sort_key (\<lambda>p. index_value (fst p)) (filter (\<lambda>p. is_array_index (fst p)) obj)
     @ filter (\<lambda>p. \<not> is_array_index (fst p)) obj"

definition own_keys :: "jsobject \<Rightarrow> jsstring list" where
  "own_keys obj = map fst (own_entries obj)"

text \<open>
  \<open>rootVars.hasOwnProperty(key)\<close>: a \<open>TypeError\<close> when \<open>rootVars\<close> has an own property
  named \<open>hasOwnProperty\<close> (its value is a string, which cannot be called).
\<close>

definition call_hasOwnProperty :: "jsobject \<Rightarrow> jsstring \<Rightarrow> js_error + bool" where
  "call_hasOwnProperty obj k =
     (if has_own obj (js ''hasOwnProperty'')
      then Inl (TypeError (js ''rootVars.hasOwnProperty is not a function''))
      else Inr (has_own obj k))"

section \<open>Parsing an environment file\<close>

text \<open>
  The body of the \<open>forEach\<close> over the lines of a file (lines 51-57 and 63-69 of
  \<open>solutionInstall.js\<close>); \<open>vars\<close> is the object being filled.
\<close>

definition parse_line :: "jsobject \<Rightarrow> jsstring \<Rightarrow> jsobject" where
  "parse_line vars line =
     (let trimmedLine = trim line in
      if trimmedLine \<noteq> [] \<and> \<not> startsWith trimmedLine HASH \<and> js_includes trimmedLine EQ
      then (case split_on EQ trimmedLine of
              [] \<Rightarrow> vars
            | key # valueParts \<Rightarrow> obj_set vars (trim key) (trim (join [EQ] valueParts)))
      else vars)"

definition parse_env :: "jsstring \<Rightarrow> jsobject" where
  "parse_env content = foldl parse_line [] (split_on LF content)"

section \<open>The world outside the program\<close>

text \<open>
  The state that the installer reads and changes:
  \<^item> \<open>files\<close>: the file system, a map from the paths that exist (\<open>fs.existsSync\<close>) to
    the text that \<open>fs.readFileSync(path, 'utf8')\<close> returns where the read goes through.
    Two path strings naming one file are not represented.
  \<^item> \<open>read_error\<close>, \<open>write_error\<close>: the error with which \<open>fs.readFileSync\<close>, respectively
    \<open>fs.writeFileSync\<close>, throws at a path (the path is a directory, its directory is
    missing, there is no permission), \<open>None\<close> where the call goes through. Directories and
    permissions are state outside the file contents, which commands change: as for the
    shell below, the commands spawned so far stand for that state.
  \<^item> \<open>spawned\<close>: the commands handed to \<open>spawn('sh', ['-c', command])\<close>, oldest first.
  \<^item> \<open>console\<close>: the calls of \<open>console.log\<close> and \<open>console.error\<close> with their
    arguments, oldest first.
  \<^item> \<open>handled\<close>: the calls of \<open>handleError\<close>.
\<close>

datatype console_arg = AStr jsstring | AErr js_error

datatype console_call = ConsoleLog "console_arg list" | ConsoleError "console_arg list"

type_synonym filesystem = "jsstring \<rightharpoonup> jsstring"

record world =
  files :: filesystem
  read_error :: "jsstring list \<Rightarrow> jsstring \<Rightarrow> js_error option"
  write_error :: "jsstring list \<Rightarrow> jsstring \<Rightarrow> js_error option"
  spawned :: "jsstring list"
  console :: "console_call list"
  handled :: "(js_error \<times> jsstring) list"

definition console_log :: "console_arg list \<Rightarrow> world \<Rightarrow> world" where
  "console_log args w = w\<lparr>console := console w @ [ConsoleLog args]\<rparr>"

definition console_error :: "console_arg list \<Rightarrow> world \<Rightarrow> world" where
  "console_error args w = w\<lparr>console := console w @ [ConsoleError args]\<rparr>"

definition existsSync :: "world \<Rightarrow> jsstring \<Rightarrow> bool" where
  "existsSync w p \<longleftrightarrow> files w p \<noteq> None"

definition readFileSync :: "world \<Rightarrow> jsstring \<Rightarrow> js_error + jsstring" where
  "readFileSync w p =
     (case read_error w (spawned w) p of
        Some e \<Rightarrow> Inl e
      | None \<Rightarrow>
          (case files w p of
             None \<Rightarrow> Inl (FsError (js ''ENOENT: no such file or directory, open '' @ [39] @ p @ [39]))
           | Some content \<Rightarrow> Inr content))"

definition writeFileSync :: "jsstring \<Rightarrow> jsstring \<Rightarrow> world \<Rightarrow> (js_error + unit) \<times> world" where
  "writeFileSync p content w =
     (case write_error w (spawned w) p of
        Some e \<Rightarrow> (Inl e, w)
      | None \<Rightarrow> (Inr (), w\<lparr>files := (files w)(p \<mapsto> content)\<rparr>))"

section \<open>mergeEnvironmentFiles\<close>

text \<open>
  Lines 49-58 and 61-70: the variables of a file, none when the file does not exist; a
  read that throws leaves the \<open>try\<close> block.
\<close>

definition read_vars :: "world \<Rightarrow> jsstring \<Rightarrow> js_error + jsobject" where
  "read_vars w p =
     (if existsSync w p
      then (case readFileSync w p of
              Inl e \<Rightarrow> Inl e
            | Inr content \<Rightarrow> Inr (parse_env content))
      else Inr [])"

text \<open>
  Lines 77-79. \<open>rootVars[key]\<close> is read for own keys only, where it is the own value;
  the \<open>None\<close> branch is never taken.
\<close>

definition copy_root :: "jsobject \<Rightarrow> jsobject \<Rightarrow> jsobject" where
  "copy_root rootVars mergedVars =
     foldl (\<lambda>m key. case map_of rootVars key of Some v \<Rightarrow> obj_set m key v | None \<Rightarrow> m)
       mergedVars (own_keys rootVars)"

text \<open>Lines 82-88: the \<open>forEach\<close> over the keys of \<open>localVars\<close>, left by the first throw.\<close>

fun add_local ::
  "jsobject \<Rightarrow> jsobject \<Rightarrow> jsstring list \<Rightarrow> jsobject \<Rightarrow> js_error + jsobject" where
  "add_local rootVars localVars [] mergedVars = Inr mergedVars"
| "add_local rootVars localVars (key # keys) mergedVars =
     (case call_hasOwnProperty rootVars key of
        Inl e \<Rightarrow> Inl e
      | Inr own \<Rightarrow>
          add_local rootVars localVars keys
            (if \<not> own
             then (case map_of localVars key of Some v \<Rightarrow> obj_set mergedVars key v
                   | None \<Rightarrow> mergedVars)
             else mergedVars))"

definition env_line :: "jsstring \<times> jsstring \<Rightarrow> jsstring" where
  "env_line p = fst p @ [EQ] @ snd p"

text \<open>Lines 91-93.\<close>

definition render_env :: "jsobject \<Rightarrow> jsstring" where
  "render_env mergedVars = join [LF] (map env_line (own_entries mergedVars))"

definition merged_message :: "jsobject \<Rightarrow> jsstring" where
  "merged_message mergedVars =
     [9989] @ js '' Merged '' @ show_nat (length (own_keys mergedVars))
     @ js '' environment variables (root values used for common variables)''"

text \<open>The \<open>try\<close> block, lines 44-98.\<close>

definition merge_try ::
  "jsstring \<Rightarrow> jsstring \<Rightarrow> jsstring \<Rightarrow> world \<Rightarrow> (js_error + jsobject) \<times> world" where
  "merge_try rootEnvPath localEnvPath outputPath w =
     (case read_vars w rootEnvPath of
        Inl e \<Rightarrow> (Inl e, w)
      | Inr rootVars \<Rightarrow>
          (case read_vars w localEnvPath of
             Inl e \<Rightarrow> (Inl e, w)
           | Inr localVars \<Rightarrow>
               (case add_local rootVars localVars (own_keys localVars) (copy_root rootVars []) of
                  Inl e \<Rightarrow> (Inl e, w)
                | Inr mergedVars \<Rightarrow>
                    (case writeFileSync outputPath (render_env mergedVars) w of
                       (Inl e, w1) \<Rightarrow> (Inl e, w1)
                     | (Inr _, w1) \<Rightarrow>
                         (Inr mergedVars,
                          console_log [AStr (merged_message mergedVars)] w1)))))"

text \<open>The whole function: the \<open>catch\<close> block logs the error and throws it again.\<close>

definition mergeEnvironmentFiles ::
  "jsstring \<Rightarrow> jsstring \<Rightarrow> jsstring \<Rightarrow> world \<Rightarrow> (js_error + jsobject) \<times> world" where
  "mergeEnvironmentFiles rootEnvPath localEnvPath outputPath w =
     (case merge_try rootEnvPath localEnvPath outputPath w of
        (Inl e, w1) \<Rightarrow>
          (Inl e,
           console_error [AStr ([10060] @ js '' Error merging environment files:''), AErr e] w1)
      | (Inr mergedVars, w1) \<Rightarrow> (Inr mergedVars, w1))"

section \<open>runCommand\<close>

text \<open>
  \<open>spawn('sh', ['-c', command], { stdio: 'inherit' })\<close> starts a process outside the
  program. What that process does is a parameter of the model, the \<open>shell\<close>: from the
  commands spawned before, the command and the file system it gives the first event the
  child emits that a handler of \<open>runCommand\<close> listens to, and the file system the process
  leaves behind. The history of commands stands for the state of the machine outside the
  files (containers, images, the network): the same command may end differently at
  different times.
  \<^item> \<open>Close code\<close>: the \<open>close\<close> event; \<open>code\<close> is the exit code, or \<open>null\<close> (here
    \<open>None\<close>) when a signal ended the process.
  \<^item> \<open>ErrorEvent e\<close>: the \<open>error\<close> event, emitted when the process could not be spawned.

  A promise settles once, so events after the first do not matter. A child that never
  emits either event leaves the promise pending for ever; the model covers the runs in
  which every command ends.
\<close>

datatype child_event = Close "nat option" | ErrorEvent js_error

type_synonym shell = "jsstring list \<Rightarrow> jsstring \<Rightarrow> filesystem \<Rightarrow> child_event \<times> filesystem"

type_synonym 'a io = "world \<Rightarrow> (js_error + 'a) \<times> world"

text \<open>The handler of \<open>close\<close>, lines 20-26.\<close>

definition on_close :: "jsstring \<Rightarrow> nat option \<Rightarrow> js_error + jsstring" where
  "on_close command code =
     (if code = Some 0 then Inr (js ''success'')
      else Inl (Error (js ''Command failed: '' @ command)))"

text \<open>The handler of \<open>error\<close>, lines 28-30.\<close>

definition on_error :: "js_error \<Rightarrow> js_error + jsstring" where
  "on_error error = Inl error"

definition runCommand :: "shell \<Rightarrow> jsstring \<Rightarrow> jsstring io" where
  "runCommand sh command w =
     (case sh (spawned w) command (files w) of
        (ev, fs) \<Rightarrow>
          (case ev of Close code \<Rightarrow> on_close command code | ErrorEvent error \<Rightarrow> on_error error,
           w\<lparr>files := fs, spawned := spawned w @ [command]\<rparr>))"

text \<open>
  Sequencing of awaited steps: a step that throws ends the sequence with its error,
  as a rejected \<open>await\<close> does in an \<open>async\<close> function.
\<close>

definition io_bind :: "'a io \<Rightarrow> ('a \<Rightarrow> 'b io) \<Rightarrow> 'b io" where
  "io_bind m f w = (case m w of (Inl e, w1) \<Rightarrow> (Inl e, w1) | (Inr x, w1) \<Rightarrow> f x w1)"

definition io_return :: "'a \<Rightarrow> 'a io" where
  "io_return x w = (Inr x, w)"

definition io_throw :: "js_error \<Rightarrow> 'a io" where
  "io_throw e w = (Inl e, w)"

definition io_log :: "jsstring \<Rightarrow> unit io" where
  "io_log line w = (Inr (), console_log [AStr line] w)"

section \<open>Configuration and template literals\<close>

text \<open>
  A \<open>SolutionConfig\<close> comes from \<open>../config/solutionconfig\<close>. The program reads its
  properties without checking them, so each may be \<open>undefined\<close> (\<open>None\<close>). A template
  literal prints \<open>undefined\<close> as the word, a number in decimal.
\<close>

record solution_config =
  repoUrl :: "jsstring option"
  branchName :: "jsstring option"
  repoName :: "jsstring option"
  installType :: "jsstring option"
  containerName :: "jsstring option"
  imageName :: "jsstring option"
  port :: "nat option"
  additionalPorts :: "nat list option"
  envFile :: "jsstring option"

definition tmpl :: "jsstring option \<Rightarrow> jsstring" where
  "tmpl v = (case v of None \<Rightarrow> js ''undefined'' | Some s \<Rightarrow> s)"

definition tmpl_num :: "nat option \<Rightarrow> jsstring" where
  "tmpl_num v = (case v of None \<Rightarrow> js ''undefined'' | Some n \<Rightarrow> show_nat n)"

text \<open>\<open>null\<close> prints as \<open>null\<close>: the \<open>composeFile\<close> of a structure is a name or \<open>null\<close>.\<close>

definition tmpl_null :: "jsstring option \<Rightarrow> jsstring" where
  "tmpl_null v = (case v of None \<Rightarrow> js ''null'' | Some s \<Rightarrow> s)"

text \<open>Truthiness of a value that is a string or \<open>undefined\<close>.\<close>

definition truthy :: "jsstring option \<Rightarrow> bool" where
  "truthy v \<longleftrightarrow> v \<noteq> None \<and> v \<noteq> Some []"

section \<open>Docker Compose probes\<close>

definition isDockerComposeAvailable :: "shell \<Rightarrow> bool io" where
  "isDockerComposeAvailable sh w =
     (case runCommand sh (js ''docker-compose --version'') w of
        (Inr _, w1) \<Rightarrow> (Inr True, w1)
      | (Inl _, w1) \<Rightarrow>
          (case runCommand sh (js ''docker compose version'') w1 of
             (Inr _, w2) \<Rightarrow> (Inr True, w2)
           | (Inl _, w2) \<Rightarrow> (Inr False, w2)))"

definition wget_command :: jsstring where
  "wget_command =
     js ''wget -O /usr/local/bin/docker-compose '' @ [34]
     @ js ''https://github.com/docker/compose/releases/download/v2.20.2/docker-compose-$(uname -s)-$(uname -m)''
     @ [34] @ js '' && chmod +x /usr/local/bin/docker-compose''"

definition installDockerCompose :: "shell \<Rightarrow> unit io" where
  "installDockerCompose sh w =
     (case runCommand sh wget_command
             (console_log [AStr ([55357, 56550] @ js '' Installing Docker Compose...'')] w) of
        (Inr _, w1) \<Rightarrow>
          (Inr (), console_log [AStr ([9989] @ js '' Docker Compose installed successfully'')] w1)
      | (Inl _, w1) \<Rightarrow>
          (Inr (),
           console_log
             [AStr ([9888, 65039]
                    @ js '' Docker Compose installation failed, continuing with fallback...'')] w1))"

section \<open>detectRepoStructure\<close>

text \<open>
  \<open>path.join\<close> is a parameter, \<open>path_join\<close>. Neither \<open>path.join\<close> on two strings nor
  \<open>fs.existsSync\<close> throws, so the \<open>catch\<close> block of lines 166-169 is never entered.
\<close>

record repo_structure =
  hasDockerCompose :: bool
  hasDockerfile :: bool
  composeFile :: "jsstring option"

definition composeFiles :: "jsstring list" where
  "composeFiles =
     [js ''docker-compose.yml'', js ''docker-compose.yaml'', js ''compose.yml'', js ''compose.yaml'']"

text \<open>The \<open>for\<close> loop of lines 152-158, left by \<open>break\<close> at the first file that exists.\<close>

fun check_compose ::
  "(jsstring \<Rightarrow> jsstring \<Rightarrow> jsstring) \<Rightarrow> world \<Rightarrow> jsstring \<Rightarrow> jsstring list \<Rightarrow> repo_structure
   \<Rightarrow> repo_structure" where
  "check_compose path_join w repoPath [] structure = structure"
| "check_compose path_join w repoPath (file # rest) structure =
     (if existsSync w (path_join repoPath file)
      then structure\<lparr>hasDockerCompose := True, composeFile := Some file\<rparr>
      else check_compose path_join w repoPath rest structure)"

definition detectRepoStructure ::
  "(jsstring \<Rightarrow> jsstring \<Rightarrow> jsstring) \<Rightarrow> jsstring \<Rightarrow> world \<Rightarrow> repo_structure" where
  "detectRepoStructure path_join repoPath w =
     (let structure = \<lparr>hasDockerCompose = False, hasDockerfile = False, composeFile = None\<rparr>;
          structure = check_compose path_join w repoPath composeFiles structure
      in if existsSync w (path_join repoPath (js ''Dockerfile''))
         then structure\<lparr>hasDockerfile := True\<rparr>
         else structure)"

section \<open>cleanupExistingContainers\<close>

definition stop_command :: "nat \<Rightarrow> jsstring" where
  "stop_command p =
     js ''docker ps -q --filter '' @ [34] @ js ''publish='' @ show_nat p @ [34]
     @ js '' | xargs -r docker stop || true''"

text \<open>The \<open>for\<close> loop of lines 186-188.\<close>

fun stop_ports :: "shell \<Rightarrow> nat list \<Rightarrow> unit io" where
  "stop_ports sh [] w = (Inr (), w)"
| "stop_ports sh (p # ports) w =
     (case runCommand sh (stop_command p) w of
        (Inl e, w1) \<Rightarrow> (Inl e, w1)
      | (Inr _, w1) \<Rightarrow> stop_ports sh ports w1)"

text \<open>The \<open>try\<close> block, lines 179-191.\<close>

definition cleanup_try :: "shell \<Rightarrow> solution_config \<Rightarrow> unit io" where
  "cleanup_try sh config =
     io_bind (io_log ([55358, 56825] @ js '' Cleaning up existing containers...'')) (\<lambda>_.
     io_bind (runCommand sh (js ''docker rm -f '' @ tmpl (containerName config) @ js '' || true'')) (\<lambda>_.
     io_bind (case additionalPorts config of
                None \<Rightarrow> io_return ()
              | Some ports \<Rightarrow> stop_ports sh ports) (\<lambda>_.
     io_log ([9989] @ js '' Existing containers cleaned up''))))"

text \<open>The whole function: the \<open>catch\<close> block logs the message and returns.\<close>

definition cleanupExistingContainers :: "shell \<Rightarrow> solution_config \<Rightarrow> unit io" where
  "cleanupExistingContainers sh config w =
     (case cleanup_try sh config w of
        (Inl error, w1) \<Rightarrow>
          (Inr (),
           console_log
             [AStr ([9888, 65039] @ js '' Error cleaning up containers:''), AStr (message error)] w1)
      | (Inr u, w1) \<Rightarrow> (Inr u, w1))"

section \<open>installDockerService\<close>

definition cp_command :: "jsstring \<Rightarrow> jsstring \<Rightarrow> jsstring" where
  "cp_command src dst = js ''cp '' @ src @ js '' '' @ dst"

definition rm_command :: "jsstring \<Rightarrow> jsstring" where
  "rm_command p = js ''rm -f '' @ p"

definition installDockerService :: "shell \<Rightarrow> solution_config \<Rightarrow> jsstring \<Rightarrow> unit io" where
  "installDockerService sh config repoPath =
     (let rootEnvPath = js ''/workspace/.env'';
          localEnvPath = repoPath @ js ''/.env'';
          tempEnvPath = repoPath @ js ''/.env.temp'';
          networkName = js ''weam_app-network''
      in
      io_bind (io_log ([55357, 56371] @ js '' Installing Docker service...'')) (\<lambda>_.
      io_bind (if truthy (envFile config)
               then runCommand sh
                      (cp_command (repoPath @ js ''/'' @ tmpl (envFile config)) (repoPath @ js ''/.env''))
               else io_return []) (\<lambda>_.
      io_bind (mergeEnvironmentFiles rootEnvPath localEnvPath tempEnvPath) (\<lambda>_.
      io_bind (runCommand sh (cp_command tempEnvPath localEnvPath)) (\<lambda>_.
      io_bind (io_log ([55357, 56616] @ js '' Building Docker image...'')) (\<lambda>_.
      io_bind (runCommand sh
                 (js ''docker build -t '' @ tmpl (imageName config) @ js '' '' @ repoPath)) (\<lambda>_.
      io_bind (io_log ([55357, 56960] @ js '' Starting container...'')) (\<lambda>_.
      io_bind (runCommand sh
                 (js ''docker run -d --name '' @ tmpl (containerName config)
                  @ js '' --network '' @ networkName
                  @ js '' -p '' @ tmpl_num (port config) @ js '':'' @ tmpl_num (port config)
                  @ js '' '' @ tmpl (imageName config))) (\<lambda>_.
      io_bind (runCommand sh
                 (cp_command (repoPath @ js ''/'' @ tmpl (envFile config)) (repoPath @ js ''/.env''))) (\<lambda>_.
      io_bind (runCommand sh (rm_command tempEnvPath)) (\<lambda>_.
      io_return ())))))))))))"

text \<open>The commands that \<open>installDockerService\<close> hands to the shell, in the order of the source.\<close>

definition single_container_commands :: "solution_config \<Rightarrow> jsstring \<Rightarrow> jsstring list" where
  "single_container_commands config repoPath =
     [cp_command (repoPath @ js ''/'' @ tmpl (envFile config)) (repoPath @ js ''/.env''),
      cp_command (repoPath @ js ''/.env.temp'') (repoPath @ js ''/.env''),
      js ''docker build -t '' @ tmpl (imageName config) @ js '' '' @ repoPath,
      js ''docker run -d --name '' @ tmpl (containerName config)
      @ js '' --network '' @ js ''weam_app-network''
      @ js '' -p '' @ tmpl_num (port config) @ js '':'' @ tmpl_num (port config)
      @ js '' '' @ tmpl (imageName config),
      rm_command (repoPath @ js ''/.env.temp'')]"

section \<open>installDockerComposeService\<close>

definition find_command :: "jsstring \<Rightarrow> jsstring" where
  "find_command repoPath =
     js ''find '' @ repoPath @ js '' -name '' @ [34] @ js ''.env.example'' @ [34]
     @ js '' -exec sh -c '' @ [39] @ js ''cp '' @ [34] @ js ''$1'' @ [34] @ js '' '' @ [34]
     @ js ''$(dirname '' @ [34] @ js ''$1'' @ [34] @ js '')/.env'' @ [34] @ [39]
     @ js '' _ {} '' @ [92] @ js '';''"

text \<open>Lines 243-254: the bulk reset of the env files and the merge into the temp file.\<close>

definition compose_prepare :: "shell \<Rightarrow> jsstring \<Rightarrow> jsobject io" where
  "compose_prepare sh repoPath =
     (let rootEnvPath = js ''/workspace/.env'';
          localEnvPath = repoPath @ js ''/.env'';
          tempEnvPath = repoPath @ js ''/.env.temp''
      in
      io_bind (io_log ([55357, 56371] @ js '' Installing Docker Compose service...'')) (\<lambda>_.
      io_bind (runCommand sh (find_command repoPath)) (\<lambda>_.
      mergeEnvironmentFiles rootEnvPath localEnvPath tempEnvPath)))"

text \<open>Lines 260-277: the body of the branch taken when a compose file was found.\<close>

definition compose_path :: "shell \<Rightarrow> repo_structure \<Rightarrow> jsstring \<Rightarrow> unit io" where
  "compose_path sh repoStructure repoPath =
     (let localEnvPath = repoPath @ js ''/.env'';
          tempEnvPath = repoPath @ js ''/.env.temp''
      in
      io_bind (io_log ([55357, 56550] @ js '' Using Docker Compose (''
                       @ tmpl_null (composeFile repoStructure) @ js '')...'')) (\<lambda>_.
      io_bind (isDockerComposeAvailable sh) (\<lambda>isComposeAvailable.
      io_bind (if \<not> isComposeAvailable then installDockerCompose sh else io_return ()) (\<lambda>_.
      io_bind (runCommand sh (cp_command tempEnvPath localEnvPath)) (\<lambda>_.
      io_bind (runCommand sh (js ''cd '' @ repoPath @ js '' && docker-compose up -d --build'')) (\<lambda>_.
      io_bind (runCommand sh (find_command repoPath)) (\<lambda>_.
      io_bind (runCommand sh (rm_command tempEnvPath)) (\<lambda>_.
      io_return ()))))))))"

text \<open>Lines 259-286: the choice of the deployment path from the detected structure.\<close>

definition select_path :: "shell \<Rightarrow> solution_config \<Rightarrow> jsstring \<Rightarrow> repo_structure \<Rightarrow> unit io" where
  "select_path sh config repoPath repoStructure =
     (if hasDockerCompose repoStructure then compose_path sh repoStructure repoPath
      else if hasDockerfile repoStructure then
        io_bind (io_log ([55357, 56550] @ js '' Using Dockerfile...'')) (\<lambda>_.
        installDockerService sh config repoPath)
      else io_throw (Error (js ''No Docker configuration found in repository'')))"

definition installDockerComposeService ::
  "shell \<Rightarrow> (jsstring \<Rightarrow> jsstring \<Rightarrow> jsstring) \<Rightarrow> solution_config \<Rightarrow> jsstring \<Rightarrow> unit io" where
  "installDockerComposeService sh path_join config repoPath =
     io_bind (compose_prepare sh repoPath) (\<lambda>_ w.
     select_path sh config repoPath (detectRepoStructure path_join repoPath w) w)"

section \<open>installWithProgress\<close>

text \<open>
  \<open>SOLUTION_CONFIGS\<close> is the object exported by \<open>../config/solutionconfig\<close>, given here by
  the table of its own properties. \<open>SOLUTION_CONFIGS[solutionType]\<close> is a property lookup
  on an ordinary object: where the object has no own property of that name the lookup
  goes on to \<open>Object.prototype\<close>, whose members (functions, and the prototype itself for
  \<open>__proto__\<close>) are truthy and have none of the properties of a \<open>SolutionConfig\<close>.
\<close>

definition object_prototype_keys :: "jsstring list" where
  "object_prototype_keys =
     [js ''constructor'', js ''hasOwnProperty'', js ''isPrototypeOf'', js ''propertyIsEnumerable'',
      js ''toLocaleString'', js ''toString'', js ''valueOf'', js ''__proto__'',
      js ''__defineGetter__'', js ''__defineSetter__'', js ''__lookupGetter__'',
      js ''__lookupSetter__'']"

definition prototype_member :: solution_config where
  "prototype_member =
     \<lparr>repoUrl = None, branchName = None, repoName = None, installType = None,
      containerName = None, imageName = None, port = None, additionalPorts = None,
      envFile = None\<rparr>"

definition lookup_config :: "(jsstring \<times> solution_config) list \<Rightarrow> jsstring \<Rightarrow> solution_config option" where
  "lookup_config SOLUTION_CONFIGS solutionType =
     (case map_of SOLUTION_CONFIGS solutionType of
        Some config \<Rightarrow> Some config
      | None \<Rightarrow> if solutionType \<in> set object_prototype_keys then Some prototype_member else None)"

text \<open>
  Modelled from the spec: \<open>handleError\<close>, from \<open>../utils/helper\<close>, is not among the
  sources. Section 4.6 has the orchestrator "report and re-raise after logging": the
  helper reports the error it is given and returns.
\<close>

definition handleError :: "js_error \<Rightarrow> jsstring \<Rightarrow> world \<Rightarrow> world" where
  "handleError error context w = w\<lparr>handled := handled w @ [(error, context)]\<rparr>"

record deployment_result =
  success :: bool
  result_port :: "nat option"
  result_solutionType :: jsstring

text \<open>
  The \<open>try\<close> block, lines 295-332. \<open>solutionType\<close> is \<open>req.body?.solutionType\<close>: a string,
  or \<open>undefined\<close> when the body or the field is missing.
\<close>

definition install_try ::
  "shell \<Rightarrow> (jsstring \<Rightarrow> jsstring \<Rightarrow> jsstring) \<Rightarrow> (jsstring \<times> solution_config) list
   \<Rightarrow> jsstring option \<Rightarrow> deployment_result io" where
  "install_try sh path_join SOLUTION_CONFIGS solutionType =
     (if \<not> truthy solutionType then io_throw (Error (js ''Solution type is required''))
      else
        (case lookup_config SOLUTION_CONFIGS (tmpl solutionType) of
           None \<Rightarrow> io_throw (Error (js ''Unknown solution type: '' @ tmpl solutionType))
         | Some config \<Rightarrow>
             (let repoPath = js ''/workspace/'' @ tmpl (repoName config) in
              io_bind (io_log ([9989] @ js '' Installing solution: '' @ tmpl solutionType
                               @ js '' ('' @ tmpl (installType config) @ js '')'')) (\<lambda>_.
              io_bind (io_log ([55358, 56825] @ js '' Cleaning up existing repository...'')) (\<lambda>_.
              io_bind (runCommand sh (js ''rm -rf '' @ repoPath)) (\<lambda>_.
              io_bind (io_log ([55357, 56549] @ js '' Cloning repository...'')) (\<lambda>_.
              io_bind (runCommand sh
                         (js ''git clone -b '' @ tmpl (branchName config) @ js '' ''
                          @ tmpl (repoUrl config) @ js '' '' @ repoPath)) (\<lambda>_.
              io_bind (cleanupExistingContainers sh config) (\<lambda>_.
              io_bind (if installType config = Some (js ''docker'')
                       then installDockerService sh config repoPath
                       else if installType config = Some (js ''docker-compose'')
                       then installDockerComposeService sh path_join config repoPath
                       else io_throw (Error (js ''Unsupported installation type: ''
                                             @ tmpl (installType config)))) (\<lambda>_.
              io_bind (io_log ([9989]
                               @ js '' Installation completed! Solution running at http://localhost:''
                               @ tmpl_num (port config))) (\<lambda>_.
              io_return \<lparr>success = True, result_port = port config,
                         result_solutionType = tmpl solutionType\<rparr>)))))))))))"

text \<open>The whole function: the \<open>catch\<close> block reports the error and throws it again.\<close>

definition installWithProgress ::
  "shell \<Rightarrow> (jsstring \<Rightarrow> jsstring \<Rightarrow> jsstring) \<Rightarrow> (jsstring \<times> solution_config) list
   \<Rightarrow> jsstring option \<Rightarrow> deployment_result io" where
  "installWithProgress sh path_join SOLUTION_CONFIGS solutionType w =
     (case install_try sh path_join SOLUTION_CONFIGS solutionType w of
        (Inl error, w1) \<Rightarrow>
          (Inl error,
           handleError error (js ''Error - solutionInstallWithProgress'')
             (console_error [AStr ([10060] @ js '' Installation failed: '' @ message error)] w1))
      | (Inr result, w1) \<Rightarrow> (Inr result, w1))"

section \<open>Invariants of parsed objects\<close>

text \<open>
  What every object built by \<open>parse_env\<close> satisfies: its keys are distinct and \<open>__proto__\<close>
  is not among them (\<open>wf_obj\<close>); keys and values are trimmed, contain no line feed, and a
  key contains no \<open>=\<close> and does not start with \<open>#\<close> (\<open>entry_ok\<close>).
\<close>

definition wf_obj :: "jsobject \<Rightarrow> bool" where
  "wf_obj obj \<longleftrightarrow> distinct (map fst obj) \<and> \<not> has_own obj (js ''__proto__'')"

definition trimmed :: "jsstring \<Rightarrow> bool" where
  "trimmed s \<longleftrightarrow> s = [] \<or> (\<not> is_ws (hd s) \<and> \<not> is_ws (last s))"

definition entry_ok :: "jsstring \<times> jsstring \<Rightarrow> bool" where
  "entry_ok p \<longleftrightarrow>
     EQ \<notin> set (fst p) \<and> LF \<notin> set (fst p) \<and> LF \<notin> set (snd p)
     \<and> trimmed (fst p) \<and> trimmed (snd p) \<and> \<not> startsWith (fst p) HASH"

text \<open>
  The object that the two loops of lines 77-88 build from \<open>rootVars\<close> and \<open>localVars\<close>,
  in closed form.
\<close>

definition merged_vars :: "jsobject \<Rightarrow> jsobject \<Rightarrow> jsobject" where
  "merged_vars R L = own_entries R @ filter (\<lambda>p. \<not> has_own R (fst p)) (own_entries L)"

text \<open>A step that leaves the file at a path as it was, whatever it returns.\<close>

definition preserves :: "jsstring \<Rightarrow> 'a io \<Rightarrow> bool" where
  "preserves p m \<longleftrightarrow> (\<forall>w r w'. m w = (r, w') \<longrightarrow> files w' p = files w p)"

section \<open>The specification's words\<close>



text \<open>
  Section 4.5: the compose path when a compose descriptor exists, whether or not a build
  descriptor exists too; the single-container path when only a build descriptor exists;
  a failure when neither does.
\<close>

datatype strategy = ComposePath | SinglePath | NoConfiguration

definition spec_strategy :: "bool \<Rightarrow> bool \<Rightarrow> strategy" where
  "spec_strategy composeDescriptor buildDescriptor =
     (if composeDescriptor then ComposePath
      else if buildDescriptor then SinglePath
      else NoConfiguration)"

section \<open>Shells, paths and worlds for the examples\<close>

text \<open>
  Instances of the parameters, used where a statement is evaluated on a concrete run.
  \<open>world_of fs\<close> is the world with the files \<open>fs\<close> in which every read and write goes
  through and nothing has happened yet.
  \<open>exit_with n\<close> is a shell in which every command exits with code \<open>n\<close> and touches no
  file. \<open>demo_shell\<close> carries out \<open>cp SRC DST\<close> and \<open>rm -f PATH\<close> on paths without blanks
  (\<open>cp\<close> exits with 1 when \<open>SRC\<close> is missing or is \<open>DST\<close> itself) and lets every other
  command exit with 0. \<open>posix_join\<close> is \<open>path.join\<close> on a normalised directory and a file
  name.
\<close>

definition exit_with :: "nat \<Rightarrow> shell" where
  "exit_with n history command fs = (Close (Some n), fs)"

definition spawn_fails :: shell where
  "spawn_fails history command fs = (ErrorEvent (SpawnError (js ''spawn sh ENOENT'')), fs)"

definition demo_shell :: shell where
  "demo_shell history command fs =
     (case split_on 32 command of
        [a, b, c] \<Rightarrow>
          if a = js ''cp'' then
            (if b \<noteq> c \<and> fs b \<noteq> None then (Close (Some 0), fs(c := fs b))
             else (Close (Some 1), fs))
          else if a = js ''rm'' \<and> b = js ''-f'' then (Close (Some 0), fs(c := None))
          else (Close (Some 0), fs)
      | _ \<Rightarrow> (Close (Some 0), fs))"

definition posix_join :: "jsstring \<Rightarrow> jsstring \<Rightarrow> jsstring" where
  "posix_join dir file = dir @ js ''/'' @ file"

definition world_of :: "filesystem \<Rightarrow> world" where
  "world_of fs =
     \<lparr>files = fs, read_error = (\<lambda>history p. None), write_error = (\<lambda>history p. None),
      spawned = [], console = [], handled = []\<rparr>"

text \<open>
  The paths of an installation under \<open>/workspace/app\<close>, and worlds holding env files:
  scenario A of section 8; a local key that is an array index; an example env file that
  sets \<open>__proto__\<close>; a world without files in which \<open>/workspace/app\<close> does not exist, so
  that the temp file cannot be written; a world in which the local env path is a directory.
\<close>

definition root_env :: jsstring where "root_env = js ''/workspace/.env''"
definition local_env :: jsstring where "local_env = js ''/workspace/app/.env''"
definition temp_env :: jsstring where "temp_env = js ''/workspace/app/.env.temp''"

definition scenario_A :: world where
  "scenario_A = world_of [root_env \<mapsto> js ''A=1\<newline>B=2'', local_env \<mapsto> js ''B=\<newline>C=3'']"


definition proto_world :: world where
  "proto_world = world_of [local_env \<mapsto> js ''__proto__=x\<newline>A=1'']"

definition ENOENT_temp :: js_error where
  "ENOENT_temp =
     FsError (js ''ENOENT: no such file or directory, open '' @ [39] @ temp_env @ [39])"

definition EISDIR :: js_error where
  "EISDIR = FsError (js ''EISDIR: illegal operation on a directory, read'')"

definition no_directory_world :: world where
  "no_directory_world =
     (world_of Map.empty)
       \<lparr>write_error := (\<lambda>history p. if p = temp_env then Some ENOENT_temp else None)\<rparr>"

definition local_is_directory_world :: world where
  "local_is_directory_world =
     (world_of [local_env \<mapsto> []])
       \<lparr>read_error := (\<lambda>history p. if p = local_env then Some EISDIR else None)\<rparr>"

definition local_only_world :: world where
  "local_only_world = world_of [local_env \<mapsto> js ''B=\<newline>C=3'']"

definition root_only_world :: world where
  "root_only_world = world_of [root_env \<mapsto> js ''A=1\<newline>B=2'']"

definition empty_world :: world where
  "empty_world = world_of Map.empty"

text \<open>A checkout under \<open>/workspace/app\<close>, its configuration, and what the checkout holds.\<close>

definition app_repo :: jsstring where "app_repo = js ''/workspace/app''"

definition app_config :: solution_config where
  "app_config =
     \<lparr>repoUrl = Some (js ''https://example.org/app.git''), branchName = Some (js ''main''),
      repoName = Some (js ''app''), installType = Some (js ''docker-compose''),
      containerName = Some (js ''app-container''), imageName = Some (js ''app-image''),
      port = Some 3000, additionalPorts = Some [3001, 3002],
      envFile = Some (js ''.env.example'')\<rparr>"

definition only_compose_yml :: world where
  "only_compose_yml = world_of [js ''/workspace/app/compose.yml'' \<mapsto> js ''services:'']"

definition two_compose_files :: world where
  "two_compose_files =
     world_of [js ''/workspace/app/compose.yaml'' \<mapsto> js ''services:'',
               js ''/workspace/app/docker-compose.yaml'' \<mapsto> js ''services:'']"

text \<open>
  A registry with one solution, and scenario B of section 8: a checkout with both
  \<open>docker-compose.yml\<close> and \<open>Dockerfile\<close>.
\<close>

definition app_registry :: "(jsstring \<times> solution_config) list" where
  "app_registry = [(js ''app'', app_config)]"

definition scenario_B :: world where
  "scenario_B =
     world_of [js ''/workspace/app/docker-compose.yml'' \<mapsto> js ''services:'',
               js ''/workspace/app/Dockerfile'' \<mapsto> js ''FROM node'',
               js ''/workspace/app/.env'' \<mapsto> js ''A=1'']"

text \<open>
  Scenario C of section 8: a checkout with a \<open>Dockerfile\<close> and an example env file only,
  and a root env file with a secret. Then a configuration that names the temp file of the
  merge as its example env file, with a checkout that holds such a file.
\<close>

definition scenario_C :: world where
  "scenario_C =
     world_of [js ''/workspace/.env'' \<mapsto> js ''A=secret'',
               js ''/workspace/app/Dockerfile'' \<mapsto> js ''FROM node'',
               js ''/workspace/app/.env.example'' \<mapsto> js ''A=\<newline>B=2'']"

definition temp_as_example :: solution_config where
  "temp_as_example = app_config\<lparr>envFile := Some (js ''.env.temp'')\<rparr>"

definition temp_as_example_world :: world where
  "temp_as_example_world =
     world_of [js ''/workspace/.env'' \<mapsto> js ''A=secret'',
               js ''/workspace/app/Dockerfile'' \<mapsto> js ''FROM node'',
               js ''/workspace/app/.env.temp'' \<mapsto> js ''A='']"

section \<open>Objects and the merge loops\<close>

lemma assign_fresh: "k \<notin> fst ` set obj \<Longrightarrow> assign k v obj = obj @ [(k, v)]"
  by (induction obj) auto

lemma assign_keys_set: "fst ` set (assign k v obj) = insert k (fst ` set obj)"
  by (induction obj) auto

lemma assign_map_fst:
  "map fst (assign k v obj) = (if k \<in> fst ` set obj then map fst obj else map fst obj @ [k])"
  by (induction obj) auto

lemma distinct_assign: "distinct (map fst obj) \<Longrightarrow> distinct (map fst (assign k v obj))"
  by (simp add: assign_map_fst)

lemma wf_obj_Nil: "wf_obj []"
  by (simp add: wf_obj_def has_own_def)

lemma wf_obj_set: "wf_obj obj \<Longrightarrow> wf_obj (obj_set obj k v)"
  by (auto simp: wf_obj_def obj_set_def has_own_def distinct_assign assign_keys_set)

lemma wf_parse_line: "wf_obj vars \<Longrightarrow> wf_obj (parse_line vars line)"
  by (simp add: parse_line_def Let_def wf_obj_set split: list.splits)

lemma wf_foldl_parse_line: "wf_obj vars \<Longrightarrow> wf_obj (foldl parse_line vars ls)"
  by (induction ls arbitrary: vars) (simp_all add: wf_parse_line)

lemma wf_parse_env: "wf_obj (parse_env content)"
  by (simp add: parse_env_def wf_foldl_parse_line wf_obj_Nil)

lemma wf_read_vars: "read_vars w p = Inr vars \<Longrightarrow> wf_obj vars"
  by (auto simp: read_vars_def wf_parse_env wf_obj_Nil split: if_splits sum.splits)

lemma set_own_entries: "set (own_entries obj) = set obj"
  by (auto simp: own_entries_def)

lemma mset_own_entries: "mset (own_entries obj) = mset obj"
  by (simp add: own_entries_def)

lemma distinct_own_entries:
  "distinct (map fst obj) \<Longrightarrow> distinct (map fst (own_entries obj))"
proof -
  have "mset (map fst (own_entries obj)) = mset (map fst obj)"
    using mset_own_entries [of obj] by (metis mset_map)
  then show "distinct (map fst obj) \<Longrightarrow> distinct (map fst (own_entries obj))"
    by (metis mset_eq_imp_distinct_iff)
qed

lemma own_entries_no_index:
  "\<forall>p\<in>set obj. \<not> is_array_index (fst p) \<Longrightarrow> own_entries obj = obj"
  by (simp add: own_entries_def filter_empty_conv)

lemma own_entries_idem: "own_entries (own_entries obj) = own_entries obj"
proof -
  let ?ix = "\<lambda>p. is_array_index (fst p)"
  let ?s = "sort_key (\<lambda>p. index_value (fst p)) (filter ?ix obj)"
  have 1: "filter ?ix ?s = ?s" by (simp add: filter_id_conv)
  have 2: "filter ?ix (filter (\<lambda>p. \<not> ?ix p) obj) = []" by (simp add: filter_empty_conv)
  have 3: "filter (\<lambda>p. \<not> ?ix p) ?s = []" by (simp add: filter_empty_conv)
  have 4: "sort_key (\<lambda>p. index_value (fst p)) ?s = ?s"
    by (rule sort_key_id_if_sorted) simp
  show ?thesis
    unfolding own_entries_def by (simp add: 1 2 3 4 del: filter_sort)
qed

lemma wf_own_entries: "wf_obj obj \<Longrightarrow> wf_obj (own_entries obj)"
  by (simp add: wf_obj_def has_own_def distinct_own_entries set_own_entries)

lemma map_of_own:
  "distinct (map fst obj) \<Longrightarrow> (k, v) \<in> set obj \<Longrightarrow> map_of obj k = Some v"
  by simp

lemma copy_step:
  assumes "distinct (map fst R)" "set es \<subseteq> set R" "distinct (map fst es)"
    and "js ''__proto__'' \<notin> fst ` set es" "fst ` set m \<inter> fst ` set es = {}"
  shows "foldl (\<lambda>m key. case map_of R key of Some v \<Rightarrow> obj_set m key v | None \<Rightarrow> m) m (map fst es)
         = m @ es"
  using assms
proof (induction es arbitrary: m)
  case Nil
  then show ?case by simp
next
  case (Cons e es)
  obtain k v where e: "e = (k, v)" by (cases e)
  have kv: "map_of R k = Some v" using Cons.prems e by simp
  have fresh: "k \<notin> fst ` set m" using Cons.prems e by auto
  have np: "k \<noteq> js ''__proto__''" using Cons.prems e by auto
  have step: "obj_set m k v = m @ [(k, v)]"
    using fresh np by (simp add: obj_set_def assign_fresh)
  have "fst ` set (m @ [(k, v)]) \<inter> fst ` set es = {}"
    using Cons.prems e by auto
  with Cons.IH [of "m @ [(k, v)]"] Cons.prems
  have "foldl (\<lambda>m key. case map_of R key of Some v \<Rightarrow> obj_set m key v | None \<Rightarrow> m)
          (m @ [(k, v)]) (map fst es) = (m @ [(k, v)]) @ es"
    by auto
  then show ?case using e kv step by simp
qed

lemma copy_root_eq: "wf_obj R \<Longrightarrow> copy_root R [] = own_entries R"
  unfolding copy_root_def own_keys_def
  using copy_step [of R "own_entries R" "[]"]
  by (simp add: wf_obj_def has_own_def set_own_entries distinct_own_entries)

lemma add_local_eq:
  assumes "\<not> has_own R (js ''hasOwnProperty'')"
    and "distinct (map fst L)" "set es \<subseteq> set L" "distinct (map fst es)"
    and "js ''__proto__'' \<notin> fst ` set es"
    and "\<forall>k\<in>fst ` set m. has_own R k \<or> k \<notin> fst ` set es"
  shows "add_local R L (map fst es) m = Inr (m @ filter (\<lambda>p. \<not> has_own R (fst p)) es)"
  using assms
proof (induction es arbitrary: m)
  case Nil
  then show ?case by simp
next
  case (Cons e es)
  obtain k v where e: "e = (k, v)" by (cases e)
  have kv: "map_of L k = Some v" using Cons.prems e by simp
  have call: "call_hasOwnProperty R k = Inr (has_own R k)"
    using Cons.prems(1) by (simp add: call_hasOwnProperty_def)
  show ?case
  proof (cases "has_own R k")
    case True
    have "\<forall>k\<in>fst ` set m. has_own R k \<or> k \<notin> fst ` set es"
      using Cons.prems by auto
    with Cons.IH [of m] Cons.prems
    have "add_local R L (map fst es) m = Inr (m @ filter (\<lambda>p. \<not> has_own R (fst p)) es)"
      by auto
    then show ?thesis using e call True by simp
  next
    case False
    have fresh: "k \<notin> fst ` set m" using Cons.prems(6) e False by auto
    have np: "k \<noteq> js ''__proto__''" using Cons.prems e by auto
    have step: "obj_set m k v = m @ [(k, v)]"
      using fresh np by (simp add: obj_set_def assign_fresh)
    have "\<forall>k'\<in>fst ` set (m @ [(k, v)]). has_own R k' \<or> k' \<notin> fst ` set es"
      using Cons.prems e by auto
    with Cons.IH [of "m @ [(k, v)]"] Cons.prems
    have "add_local R L (map fst es) (m @ [(k, v)])
          = Inr ((m @ [(k, v)]) @ filter (\<lambda>p. \<not> has_own R (fst p)) es)"
      by auto
    then show ?thesis using e call False kv step by simp
  qed
qed

lemma merge_loops:
  assumes "wf_obj R" "wf_obj L" "\<not> has_own R (js ''hasOwnProperty'')"
  shows "add_local R L (own_keys L) (copy_root R []) = Inr (merged_vars R L)"
  unfolding own_keys_def merged_vars_def copy_root_eq [OF assms(1)]
  using assms add_local_eq [of R L "own_entries L" "own_entries R"]
  by (simp add: wf_obj_def has_own_def set_own_entries distinct_own_entries)

lemma add_local_throws:
  "has_own R (js ''hasOwnProperty'') \<Longrightarrow> ks \<noteq> [] \<Longrightarrow>
   add_local R L ks m = Inl (TypeError (js ''rootVars.hasOwnProperty is not a function''))"
  by (cases ks) (simp_all add: call_hasOwnProperty_def)

lemma trim_Nil: "trim [] = []"
  by (simp add: trim_def)

lemma trim_Cons: "\<not> is_ws h \<Longrightarrow> trim (h # rest) = h # rev (dropWhile is_ws (rev rest))"
  by (simp add: trim_def dropWhile_append)

lemma trimmed_trim: "trimmed (trim s)"
proof (cases "dropWhile is_ws s")
  case Nil
  have "trim s = []" unfolding trim_def Nil by simp
  then show ?thesis by (simp add: trimmed_def)
next
  case (Cons h rest)
  then have h: "\<not> is_ws h" by (metis hd_dropWhile list.sel(1) list.distinct(1))
  have t: "trim s = h # rev (dropWhile is_ws (rev rest))"
    unfolding trim_def Cons using h by (simp add: dropWhile_append)
  show ?thesis
  proof (cases "dropWhile is_ws (rev rest)")
    case Nil
    then show ?thesis using t h by (simp add: trimmed_def)
  next
    case (Cons a u)
    then have "\<not> is_ws a" by (metis hd_dropWhile list.sel(1) list.distinct(1))
    then show ?thesis using t h Cons by (simp add: trimmed_def)
  qed
qed

lemma trim_trimmed: "trimmed s \<Longrightarrow> trim s = s"
proof (cases s)
  case Nil
  then show ?thesis by (simp add: trim_def)
next
  case (Cons h rest)
  assume "trimmed s"
  then have h: "\<not> is_ws h" and l: "\<not> is_ws (last (h # rest))"
    using Cons by (simp_all add: trimmed_def)
  have "dropWhile is_ws (rev rest) = rev rest"
  proof (cases rest)
    case Nil
    then show ?thesis by simp
  next
    case (Cons a list)
    then have "\<not> is_ws (last rest)" using l by simp
    moreover have "hd (rev rest) = last rest" by (rule hd_rev)
    ultimately have "\<not> is_ws (hd (rev rest))" by simp
    then show ?thesis by (simp add: dropWhile_eq_self_iff)
  qed
  then show ?thesis using Cons h by (simp add: trim_Cons)
qed

lemma set_trim: "set (trim s) \<subseteq> set s"
proof -
  have "set (trim s) \<subseteq> set (dropWhile is_ws s)"
    unfolding trim_def by (metis set_dropWhileD set_rev subsetI)
  also have "\<dots> \<subseteq> set s" by (meson set_dropWhileD subsetI)
  finally show ?thesis .
qed

lemma split_on_not_Nil: "split_on c s \<noteq> []"
  by (induction s) (auto split: list.splits)

lemma split_on_no_sep: "c \<notin> set s \<Longrightarrow> split_on c s = [s]"
  by (induction s) auto

lemma split_on_append: "c \<notin> set x \<Longrightarrow> split_on c (x @ c # rest) = x # split_on c rest"
  by (induction x) auto

lemma split_on_free: "x \<in> set (split_on c s) \<Longrightarrow> c \<notin> set x"
  by (induction s arbitrary: x) (auto split: if_splits list.splits)

lemma split_on_subset: "x \<in> set (split_on c s) \<Longrightarrow> set x \<subseteq> set s"
  by (induction s arbitrary: x) (fastforce split: if_splits list.splits)+

lemma hd_split_on: "split_on c s = k # parts \<Longrightarrow> k = takeWhile (\<lambda>x. x \<noteq> c) s"
  by (induction s arbitrary: k parts) (auto simp: split_on_not_Nil split: if_splits list.splits)

lemma join_split_on: "join [c] (split_on c s) = s"
proof (induction s)
  case Nil
  then show ?case by simp
next
  case (Cons x xs)
  show ?case
  proof (cases "x = c")
    case True
    obtain y ys where "split_on c xs = y # ys"
      using split_on_not_Nil [of c xs] by (cases "split_on c xs") auto
    then show ?thesis using True Cons by simp
  next
    case False
    obtain y ys where sp: "split_on c xs = y # ys"
      using split_on_not_Nil [of c xs] by (cases "split_on c xs") auto
    then show ?thesis using False Cons by (cases ys) simp_all
  qed
qed

lemma split_on_join:
  "xs \<noteq> [] \<Longrightarrow> \<forall>x\<in>set xs. c \<notin> set x \<Longrightarrow> split_on c (join [c] xs) = xs"
proof (induction "[c]" xs rule: join.induct)
  case 1
  then show ?case by simp
next
  case (2 x)
  then show ?case by (simp add: split_on_no_sep)
next
  case (3 x y ys)
  then show ?case by (simp add: split_on_append)
qed

lemma set_join: "set (join sep xs) \<subseteq> set sep \<union> \<Union> (set ` set xs)"
  by (induction sep xs rule: join.induct) auto

section \<open>Invariants of parsing, and reading back what was written\<close>

lemma chars_distinct: "\<not> is_ws EQ" "\<not> is_ws HASH" "EQ \<noteq> LF" "EQ \<noteq> HASH"
  by (simp_all add: is_ws_def EQ_def HASH_def LF_def)

lemma set_assign_subset: "set (assign k v obj) \<subseteq> insert (k, v) (set obj)"
  by (induction obj) auto

lemma set_obj_set_subset: "set (obj_set obj k v) \<subseteq> insert (k, v) (set obj)"
  using set_assign_subset [of k v obj] by (auto simp: obj_set_def)

lemma entry_ok_new:
  assumes t: "t = trim line" "t \<noteq> []" "\<not> startsWith t HASH" "LF \<notin> set line"
    and sp: "split_on EQ t = key # valueParts"
  shows "entry_ok (trim key, trim (join [EQ] valueParts))"
proof -
  have tl: "set t \<subseteq> set line" using t(1) set_trim by simp
  have key_in: "key \<in> set (split_on EQ t)" using sp by simp
  have key_sub: "set key \<subseteq> set t" using key_in by (rule split_on_subset)
  have key_eq: "EQ \<notin> set key" using key_in by (rule split_on_free)
  have parts_sub: "\<Union> (set ` set valueParts) \<subseteq> set t"
    using sp split_on_subset [of _ EQ t] by auto
  have 1: "EQ \<notin> set (trim key)" using key_eq set_trim [of key] by auto
  have 2: "LF \<notin> set (trim key)" using key_sub tl t(4) set_trim [of key] by auto
  have "set (join [EQ] valueParts) \<subseteq> insert EQ (set t)"
    using set_join [of "[EQ]" valueParts] parts_sub by auto
  then have 3: "LF \<notin> set (trim (join [EQ] valueParts))"
    using set_trim [of "join [EQ] valueParts"] tl t(4) chars_distinct(3) by auto
  have 4: "\<not> startsWith (trim key) HASH"
  proof (cases key)
    case Nil
    then show ?thesis by (simp add: trim_Nil startsWith_def)
  next
    case (Cons h rest)
    have "key = takeWhile (\<lambda>x. x \<noteq> EQ) t" using sp by (rule hd_split_on)
    then have ht: "hd t = h" using Cons by (cases t) (auto split: if_splits)
    have "trimmed t" using t(1) trimmed_trim by simp
    then have "\<not> is_ws h" using t(2) ht by (auto simp: trimmed_def)
    then have "trim key = h # rev (dropWhile is_ws (rev rest))"
      using Cons by (simp add: trim_Cons)
    moreover have "h \<noteq> HASH" using t(2,3) ht by (cases t) (auto simp: startsWith_def)
    ultimately show ?thesis by (simp add: startsWith_def)
  qed
  show ?thesis
    using 1 2 3 4 by (simp add: entry_ok_def trimmed_trim)
qed

lemma entry_ok_parse_line:
  assumes "\<forall>p\<in>set vars. entry_ok p" "LF \<notin> set line"
  shows "\<forall>p\<in>set (parse_line vars line). entry_ok p"
proof (cases "trim line \<noteq> [] \<and> \<not> startsWith (trim line) HASH \<and> js_includes (trim line) EQ")
  case False
  then show ?thesis using assms(1) by (auto simp: parse_line_def Let_def)
next
  case True
  obtain key valueParts where sp: "split_on EQ (trim line) = key # valueParts"
    using split_on_not_Nil [of EQ "trim line"] by (cases "split_on EQ (trim line)") auto
  have new: "entry_ok (trim key, trim (join [EQ] valueParts))"
    using entry_ok_new [OF refl _ _ assms(2) sp] True by simp
  have "parse_line vars line = obj_set vars (trim key) (trim (join [EQ] valueParts))"
    using True sp by (simp add: parse_line_def Let_def)
  then show ?thesis
    using set_obj_set_subset [of vars "trim key" "trim (join [EQ] valueParts)"] new assms(1)
    by auto
qed

lemma entry_ok_foldl:
  "\<forall>p\<in>set vars. entry_ok p \<Longrightarrow> \<forall>l\<in>set ls. LF \<notin> set l
   \<Longrightarrow> \<forall>p\<in>set (foldl parse_line vars ls). entry_ok p"
proof (induction ls arbitrary: vars)
  case Nil
  then show ?case by simp
next
  case (Cons l ls)
  have "\<forall>p\<in>set (parse_line vars l). entry_ok p"
    using entry_ok_parse_line [of vars l] Cons.prems by simp
  then show ?case using Cons by simp
qed

lemma entry_ok_parse_env: "\<forall>p\<in>set (parse_env content). entry_ok p"
  unfolding parse_env_def
  by (rule entry_ok_foldl) (auto dest: split_on_free)

lemma trimmed_env_line: "trimmed (fst p) \<Longrightarrow> trimmed (snd p) \<Longrightarrow> trimmed (env_line p)"
  using chars_distinct(1)
  by (cases "fst p"; cases "snd p" rule: rev_cases) (auto simp: trimmed_def env_line_def)

lemma parse_line_env_line:
  assumes "entry_ok p"
  shows "parse_line vars (env_line p) = obj_set vars (fst p) (snd p)"
proof -
  have tr: "trim (env_line p) = env_line p"
    using assms by (simp add: entry_ok_def trimmed_env_line trim_trimmed)
  have ne: "env_line p \<noteq> []" by (simp add: env_line_def)
  have nh: "\<not> startsWith (env_line p) HASH"
    using assms chars_distinct(4) by (cases "fst p") (auto simp: entry_ok_def env_line_def startsWith_def)
  have inc: "js_includes (env_line p) EQ" by (simp add: js_includes_def env_line_def)
  have sp: "split_on EQ (env_line p) = fst p # split_on EQ (snd p)"
    using assms by (simp add: entry_ok_def env_line_def split_on_append)
  show ?thesis
    using assms tr ne nh inc sp
    by (simp add: parse_line_def Let_def join_split_on entry_ok_def trim_trimmed)
qed

lemma foldl_parse_lines:
  assumes "distinct (map fst es)" "\<forall>p\<in>set es. entry_ok p"
    and "js ''__proto__'' \<notin> fst ` set es" "fst ` set acc \<inter> fst ` set es = {}"
  shows "foldl parse_line acc (map env_line es) = acc @ es"
  using assms
proof (induction es arbitrary: acc)
  case Nil
  then show ?case by simp
next
  case (Cons e es)
  have step: "parse_line acc (env_line e) = acc @ [e]"
    using Cons.prems by (auto simp: parse_line_env_line obj_set_def assign_fresh)
  have "fst ` set (acc @ [e]) \<inter> fst ` set es = {}"
    using Cons.prems by auto
  with Cons.IH [of "acc @ [e]"] Cons.prems
  have "foldl parse_line (acc @ [e]) (map env_line es) = (acc @ [e]) @ es" by auto
  then show ?case using step by simp
qed

lemma LF_env_line: "entry_ok p \<Longrightarrow> LF \<notin> set (env_line p)"
  using chars_distinct(3) by (auto simp: entry_ok_def env_line_def)

lemma parse_join_lines:
  assumes "wf_obj es" "\<forall>p\<in>set es. entry_ok p"
  shows "parse_env (join [LF] (map env_line es)) = es"
proof (cases es)
  case Nil
  then show ?thesis by (simp add: parse_env_def parse_line_def trim_Nil)
next
  case (Cons e rest)
  have "split_on LF (join [LF] (map env_line es)) = map env_line es"
    using Cons assms(2) by (intro split_on_join) (auto simp: LF_env_line)
  then show ?thesis
    using assms foldl_parse_lines [of es "[]"]
    by (simp add: parse_env_def wf_obj_def has_own_def)
qed

lemma parse_render_env:
  assumes "wf_obj obj" "\<forall>p\<in>set obj. entry_ok p"
  shows "parse_env (render_env obj) = own_entries obj"
  unfolding render_env_def
  using assms by (intro parse_join_lines) (simp_all add: wf_own_entries set_own_entries)

lemma render_env_own_entries: "render_env (own_entries obj) = render_env obj"
  by (simp add: render_env_def own_entries_idem)


lemma own_entries_Nil: "own_entries [] = []"
  by (simp add: own_entries_def)

lemma merge_try_ok:
  assumes "read_vars w rootEnvPath = Inr R" and "read_vars w localEnvPath = Inr L"
    and "\<not> has_own R (js ''hasOwnProperty'')"
  shows "merge_try rootEnvPath localEnvPath outputPath w =
         (case write_error w (spawned w) outputPath of
            Some e \<Rightarrow> (Inl e, w)
          | None \<Rightarrow>
              (Inr (merged_vars R L),
               console_log [AStr (merged_message (merged_vars R L))]
                 (w\<lparr>files := (files w)(outputPath \<mapsto> render_env (merged_vars R L))\<rparr>)))"
  using merge_loops [OF wf_read_vars [OF assms(1)] wf_read_vars [OF assms(2)] assms(3)]
  by (simp add: merge_try_def assms(1,2) writeFileSync_def split: option.splits)

lemma merge_try_local_empty:
  assumes "read_vars w rootEnvPath = Inr R" and "read_vars w localEnvPath = Inr []"
  shows "merge_try rootEnvPath localEnvPath outputPath w =
         (case write_error w (spawned w) outputPath of
            Some e \<Rightarrow> (Inl e, w)
          | None \<Rightarrow>
              (Inr (own_entries R),
               console_log [AStr (merged_message (own_entries R))]
                 (w\<lparr>files := (files w)(outputPath \<mapsto> render_env R)\<rparr>)))"
  using copy_root_eq [OF wf_read_vars [OF assms(1)]]
  by (simp add: merge_try_def assms own_keys_def own_entries_Nil render_env_own_entries
      writeFileSync_def split: option.splits)

lemma merge_try_root_empty:
  assumes "read_vars w rootEnvPath = Inr []" and "read_vars w localEnvPath = Inr L"
  shows "merge_try rootEnvPath localEnvPath outputPath w =
         (case write_error w (spawned w) outputPath of
            Some e \<Rightarrow> (Inl e, w)
          | None \<Rightarrow>
              (Inr (own_entries L),
               console_log [AStr (merged_message (own_entries L))]
                 (w\<lparr>files := (files w)(outputPath \<mapsto> render_env L)\<rparr>)))"
proof -
  have "\<not> has_own [] (js ''hasOwnProperty'')"
    by (simp add: has_own_def)
  moreover have "merged_vars [] L = own_entries L"
    by (simp add: merged_vars_def own_entries_Nil has_own_def)
  ultimately show ?thesis
    using merge_try_ok [OF assms, of outputPath]
    by (simp add: render_env_own_entries split: option.splits)
qed

lemma merge_try_frame:
  "p \<noteq> outputPath \<Longrightarrow>
   files (snd (merge_try rootEnvPath localEnvPath outputPath w)) p = files w p"
  by (auto simp: merge_try_def console_log_def writeFileSync_def
      split: sum.splits option.splits)

lemma merge_files:
  "files (snd (mergeEnvironmentFiles rootEnvPath localEnvPath outputPath w))
   = files (snd (merge_try rootEnvPath localEnvPath outputPath w))"
  by (simp add: mergeEnvironmentFiles_def console_error_def split: prod.splits sum.splits)

lemma merge_fst:
  "fst (mergeEnvironmentFiles rootEnvPath localEnvPath outputPath w)
   = fst (merge_try rootEnvPath localEnvPath outputPath w)"
  by (simp add: mergeEnvironmentFiles_def split: prod.splits sum.splits)

section \<open>A missing or empty source\<close>

lemma read_vars_None: "files w p = None \<Longrightarrow> read_vars w p = Inr []"
  by (simp add: read_vars_def existsSync_def)

lemma read_vars_Some:
  "files w p = Some content \<Longrightarrow> read_error w (spawned w) p = None \<Longrightarrow>
   read_vars w p = Inr (parse_env content)"
  by (simp add: read_vars_def existsSync_def readFileSync_def)

section \<open>The merge of environment files\<close>





text \<open>
  What the amended C1 leaves out: a root key \<open>hasOwnProperty\<close> shadows the method that
  line 83 calls, and the merge throws a \<open>TypeError\<close> at the first local key, before
  anything is written.
\<close>

lemma merge_hasOwnProperty_throws:
  assumes "read_vars w rootEnvPath = Inr R" and "read_vars w localEnvPath = Inr L"
    and "has_own R (js ''hasOwnProperty'')" and "L \<noteq> []"
  shows "fst (mergeEnvironmentFiles rootEnvPath localEnvPath outputPath w)
           = Inl (TypeError (js ''rootVars.hasOwnProperty is not a function''))
         \<and> files (snd (mergeEnvironmentFiles rootEnvPath localEnvPath outputPath w)) = files w"
proof -
  have "own_keys L \<noteq> []"
    using assms(4) set_own_entries [of L] by (auto simp: own_keys_def)
  then show ?thesis
    using add_local_throws [OF assms(3)]
    by (simp add: merge_fst merge_files merge_try_def assms(1,2))
qed

text \<open>
  \<open>mergeEnvironmentFiles\<close> is not exported; its two callers (lines 217 and 254) pass
  \<open>/workspace/.env\<close>, \<open>repoPath/.env\<close> and \<open>repoPath/.env.temp\<close>. The output path differs
  from both source paths for every \<open>repoPath\<close>.
\<close>

lemma install_paths_distinct:
  "repoPath @ js ''/.env.temp'' \<noteq> js ''/workspace/.env''
   \<and> repoPath @ js ''/.env.temp'' \<noteq> repoPath @ js ''/.env''"
proof -
  have "last (repoPath @ js ''/.env.temp'') \<noteq> last (js ''/workspace/.env'')"
    by (simp add: js_def)
  then have "repoPath @ js ''/.env.temp'' \<noteq> js ''/workspace/.env''" by metis
  moreover have "js ''/.env.temp'' \<noteq> js ''/.env''" by (simp add: js_def)
  ultimately show ?thesis by simp
qed

text \<open>
  C3: merge does not change its sources. With an output path distinct from the two source
  paths, the root file and the local file hold after the call what they held before it,
  whether merge returns or throws, and so does every path other than the output path. The
  output path is distinct in every call the program makes, so there the sources are
  unchanged for every \<open>repoPath\<close> and every state of the files.
\<close>

theorem merge_preserves_sources:
  "(outputPath \<noteq> rootEnvPath \<and> outputPath \<noteq> localEnvPath \<longrightarrow>
      files (snd (mergeEnvironmentFiles rootEnvPath localEnvPath outputPath w)) rootEnvPath
        = files w rootEnvPath
      \<and> files (snd (mergeEnvironmentFiles rootEnvPath localEnvPath outputPath w)) localEnvPath
        = files w localEnvPath
      \<and> (\<forall>p. p \<noteq> outputPath \<longrightarrow>
            files (snd (mergeEnvironmentFiles rootEnvPath localEnvPath outputPath w)) p
              = files w p))
   \<and> files (snd (mergeEnvironmentFiles (js ''/workspace/.env'') (repoPath @ js ''/.env'')
                    (repoPath @ js ''/.env.temp'') w)) (js ''/workspace/.env'')
       = files w (js ''/workspace/.env'')
   \<and> files (snd (mergeEnvironmentFiles (js ''/workspace/.env'') (repoPath @ js ''/.env'')
                    (repoPath @ js ''/.env.temp'') w)) (repoPath @ js ''/.env'')
       = files w (repoPath @ js ''/.env'')"
proof -
  have "js ''/workspace/.env'' \<noteq> repoPath @ js ''/.env.temp''"
    and "repoPath @ js ''/.env'' \<noteq> repoPath @ js ''/.env.temp''"
    using install_paths_distinct [of repoPath] by auto
  then have sites:
    "files (snd (mergeEnvironmentFiles (js ''/workspace/.env'') (repoPath @ js ''/.env'')
                   (repoPath @ js ''/.env.temp'') w)) (js ''/workspace/.env'')
       = files w (js ''/workspace/.env'')"
    "files (snd (mergeEnvironmentFiles (js ''/workspace/.env'') (repoPath @ js ''/.env'')
                   (repoPath @ js ''/.env.temp'') w)) (repoPath @ js ''/.env'')
       = files w (repoPath @ js ''/.env'')"
    by (simp_all add: merge_files merge_try_frame)
  have frame: "files (snd (mergeEnvironmentFiles rootEnvPath localEnvPath outputPath w)) p
                 = files w p" if "p \<noteq> outputPath" for p
    using that by (simp add: merge_files merge_try_frame)
  show ?thesis using sites frame by auto
qed

theorem merge_preserves_sources_witness:
  "temp_env \<noteq> root_env \<and> temp_env \<noteq> local_env
   \<and> files (snd (mergeEnvironmentFiles root_env local_env temp_env scenario_A)) root_env
       = Some (js ''A=1\<newline>B=2'')
   \<and> files (snd (mergeEnvironmentFiles root_env local_env temp_env scenario_A)) local_env
       = Some (js ''B=\<newline>C=3'')"
proof -
  have h: "temp_env \<noteq> root_env \<and> temp_env \<noteq> local_env" by code_simp
  have f: "files scenario_A root_env = Some (js ''A=1\<newline>B=2'')"
    "files scenario_A local_env = Some (js ''B=\<newline>C=3'')"
    by code_simp+
  show ?thesis
    using merge_preserves_sources [of temp_env root_env local_env scenario_A "[]"] h
    by (simp add: f)
qed

text \<open>
  C10, as stated, fails: a missing source is no error, but the write of line 95 can throw,
  and the \<open>catch\<close> block of lines 99-102 throws the error again. With neither source file and
  no directory \<open>/workspace/app\<close> to write the temp file into, merge ends in the \<open>ENOENT\<close> of
  the write and there is no output. Likewise, with no root file and a directory where the
  local file is expected, \<open>existsSync\<close> holds, the read throws \<open>EISDIR\<close> and so does merge.
\<close>

theorem merge_missing_source_counterexample:
  "files no_directory_world root_env = None
   \<and> files no_directory_world local_env = None
   \<and> fst (mergeEnvironmentFiles root_env local_env temp_env no_directory_world)
       = Inl ENOENT_temp
   \<and> files (snd (mergeEnvironmentFiles root_env local_env temp_env no_directory_world)) temp_env
       = None
   \<and> files local_is_directory_world root_env = None
   \<and> existsSync local_is_directory_world local_env
   \<and> fst (mergeEnvironmentFiles root_env local_env temp_env local_is_directory_world)
       = Inl EISDIR"
  by code_simp

text \<open>
  C10, amended: a source file that does not exist counts as an empty map and is no error.
  Provided the other source, where it exists, is read without error and the output file
  can be written, merge returns without an error: when only the root file is missing, the
  result and the lines written are exactly the entries of the parsed local file; when only
  the local file is missing, those of the parsed root file; when both are missing, the
  output is the empty text.
\<close>

theorem merge_missing_source:
  "(files w rootEnvPath = None \<and> files w localEnvPath = Some localContent
      \<and> read_error w (spawned w) localEnvPath = None
      \<and> write_error w (spawned w) outputPath = None \<longrightarrow>
      fst (mergeEnvironmentFiles rootEnvPath localEnvPath outputPath w)
        = Inr (own_entries (parse_env localContent))
      \<and> files (snd (mergeEnvironmentFiles rootEnvPath localEnvPath outputPath w))
        = (files w)(outputPath \<mapsto> join [LF] (map env_line (own_entries (parse_env localContent)))))
   \<and> (files w rootEnvPath = Some rootContent \<and> files w localEnvPath = None
      \<and> read_error w (spawned w) rootEnvPath = None
      \<and> write_error w (spawned w) outputPath = None \<longrightarrow>
      fst (mergeEnvironmentFiles rootEnvPath localEnvPath outputPath w)
        = Inr (own_entries (parse_env rootContent))
      \<and> files (snd (mergeEnvironmentFiles rootEnvPath localEnvPath outputPath w))
        = (files w)(outputPath \<mapsto> join [LF] (map env_line (own_entries (parse_env rootContent)))))
   \<and> (files w rootEnvPath = None \<and> files w localEnvPath = None
      \<and> write_error w (spawned w) outputPath = None \<longrightarrow>
      fst (mergeEnvironmentFiles rootEnvPath localEnvPath outputPath w) = Inr []
      \<and> files (snd (mergeEnvironmentFiles rootEnvPath localEnvPath outputPath w))
        = (files w)(outputPath \<mapsto> []))"
proof (intro conjI impI)
  assume a: "files w rootEnvPath = None \<and> files w localEnvPath = Some localContent
      \<and> read_error w (spawned w) localEnvPath = None
      \<and> write_error w (spawned w) outputPath = None"
  then have r: "read_vars w rootEnvPath = Inr []"
    and l: "read_vars w localEnvPath = Inr (parse_env localContent)"
    by (simp_all add: read_vars_None read_vars_Some)
  show "fst (mergeEnvironmentFiles rootEnvPath localEnvPath outputPath w)
          = Inr (own_entries (parse_env localContent))"
    using a by (simp add: merge_fst merge_try_root_empty [OF r l])
  show "files (snd (mergeEnvironmentFiles rootEnvPath localEnvPath outputPath w))
          = (files w)(outputPath \<mapsto> join [LF] (map env_line (own_entries (parse_env localContent))))"
    using a by (simp add: merge_files merge_try_root_empty [OF r l] render_env_def console_log_def)
next
  assume a: "files w rootEnvPath = Some rootContent \<and> files w localEnvPath = None
      \<and> read_error w (spawned w) rootEnvPath = None
      \<and> write_error w (spawned w) outputPath = None"
  then have r: "read_vars w rootEnvPath = Inr (parse_env rootContent)"
    and l: "read_vars w localEnvPath = Inr []"
    by (simp_all add: read_vars_None read_vars_Some)
  show "fst (mergeEnvironmentFiles rootEnvPath localEnvPath outputPath w)
          = Inr (own_entries (parse_env rootContent))"
    using a by (simp add: merge_fst merge_try_local_empty [OF r l])
  show "files (snd (mergeEnvironmentFiles rootEnvPath localEnvPath outputPath w))
          = (files w)(outputPath \<mapsto> join [LF] (map env_line (own_entries (parse_env rootContent))))"
    using a by (simp add: merge_files merge_try_local_empty [OF r l] render_env_def console_log_def)
next
  assume a: "files w rootEnvPath = None \<and> files w localEnvPath = None
      \<and> write_error w (spawned w) outputPath = None"
  then have r: "read_vars w rootEnvPath = Inr []" and l: "read_vars w localEnvPath = Inr []"
    by (simp_all add: read_vars_None)
  show "fst (mergeEnvironmentFiles rootEnvPath localEnvPath outputPath w) = Inr []"
    using a by (simp add: merge_fst merge_try_local_empty [OF r l] own_entries_Nil)
  show "files (snd (mergeEnvironmentFiles rootEnvPath localEnvPath outputPath w))
          = (files w)(outputPath \<mapsto> [])"
    using a
    by (simp add: merge_files merge_try_local_empty [OF r l] render_env_def own_entries_Nil
        console_log_def)
qed

theorem merge_missing_source_witness:
  "files (snd (mergeEnvironmentFiles root_env local_env temp_env local_only_world)) temp_env
     = Some (js ''B=\<newline>C=3'')
   \<and> files (snd (mergeEnvironmentFiles root_env local_env temp_env root_only_world)) temp_env
     = Some (js ''A=1\<newline>B=2'')
   \<and> files (snd (mergeEnvironmentFiles root_env local_env temp_env empty_world)) temp_env
     = Some []"
proof -
  have l: "files local_only_world root_env = None"
    "files local_only_world local_env = Some (js ''B=\<newline>C=3'')"
    "read_error local_only_world (spawned local_only_world) local_env = None"
    "write_error local_only_world (spawned local_only_world) temp_env = None"
    by code_simp+
  have r: "files root_only_world root_env = Some (js ''A=1\<newline>B=2'')"
    "files root_only_world local_env = None"
    "read_error root_only_world (spawned root_only_world) root_env = None"
    "write_error root_only_world (spawned root_only_world) temp_env = None"
    by code_simp+
  have e: "files empty_world root_env = None" "files empty_world local_env = None"
    "write_error empty_world (spawned empty_world) temp_env = None"
    by code_simp+
  have lo: "join [LF] (map env_line (own_entries (parse_env (js ''B=\<newline>C=3''))))
              = js ''B=\<newline>C=3''"
    by code_simp
  have ro: "join [LF] (map env_line (own_entries (parse_env (js ''A=1\<newline>B=2''))))
              = js ''A=1\<newline>B=2''"
    by code_simp
  show ?thesis
    using merge_missing_source [of local_only_world root_env local_env "js ''B=\<newline>C=3''"
        temp_env "[]"]
      merge_missing_source [of root_only_world root_env local_env "[]"
        temp_env "js ''A=1\<newline>B=2''"]
      merge_missing_source [of empty_world root_env local_env "[]" temp_env "[]"]
    by (simp add: l r e lo ro)
qed

text \<open>
  C2 does not hold of the code: an example env file that sets the variable \<open>__proto__\<close>
  loses it in the round trip. Line 67 assigns the value to \<open>localVars['__proto__']\<close>, which
  on a plain object runs the inherited setter and creates no property, so the variable
  never reaches the output: the example \<open>__proto__=x\<close>, \<open>A=1\<close>, merged with no root file,
  comes back as \<open>A=1\<close> alone.
\<close>

theorem round_trip_loses_proto:
  "files proto_world root_env = None
   \<and> files proto_world local_env = Some (js ''__proto__=x\<newline>A=1'')
   \<and> fst (mergeEnvironmentFiles root_env local_env temp_env proto_world)
       = Inr [(js ''A'', js ''1'')]
   \<and> files (snd (mergeEnvironmentFiles root_env local_env temp_env proto_world)) temp_env
       = Some (js ''A=1'')"
  by code_simp

text \<open>
  For the other examples the round trip holds of the text itself. Let the example be any
  list of variables with distinct keys other than \<open>__proto__\<close>, written one \<open>KEY=VALUE\<close> line
  each (keys and values trimmed and free of line feeds, keys without \<open>=\<close> and not starting
  with \<open>#\<close>). Merged with an empty root, the output has exactly the lines of the example,
  reordered only in that keys that are array indices come first.
\<close>

lemma round_trip_well_formed:
  assumes "wf_obj es" and "\<forall>p\<in>set es. entry_ok p"
    and "read_vars w rootEnvPath = Inr []"
    and "files w localEnvPath = Some (join [LF] (map env_line es))"
    and "read_error w (spawned w) localEnvPath = None"
    and "write_error w (spawned w) outputPath = None"
  shows "files (snd (mergeEnvironmentFiles rootEnvPath localEnvPath outputPath w)) outputPath
           = Some (join [LF] (map env_line (own_entries es)))
         \<and> mset (map env_line (own_entries es)) = mset (map env_line es)
         \<and> ((\<forall>p\<in>set es. \<not> is_array_index (fst p)) \<longrightarrow> own_entries es = es)"
proof -
  have "read_vars w localEnvPath = Inr (parse_env (join [LF] (map env_line es)))"
    using assms(4,5) by (rule read_vars_Some)
  then have l: "read_vars w localEnvPath = Inr es"
    using parse_join_lines [OF assms(1,2)] by simp
  have "mset (map env_line (own_entries es)) = mset (map env_line es)"
    using mset_own_entries [of es] by (metis mset_map)
  then show ?thesis
    using assms(6)
    by (simp add: merge_files merge_try_root_empty [OF assms(3) l] render_env_def
        console_log_def own_entries_no_index)
qed

section \<open>Running commands\<close>

text \<open>
  C9, as stated, fails in its second part: the error of a nonzero exit does not carry the
  exit code. A command that exits with 1 and one that exits with 2 are rejected with the
  same error, whose only content is the message \<open>Command failed: false\<close>.
\<close>

theorem runCommand_exit_code_counterexample:
  "fst (runCommand (exit_with 1) (js ''false'') empty_world)
     = Inl (Error (js ''Command failed: false''))
   \<and> fst (runCommand (exit_with 2) (js ''false'') empty_world)
     = Inl (Error (js ''Command failed: false''))"
  by code_simp

text \<open>
  C9, amended: \<open>runCommand\<close> resolves exactly when the child closes with exit code 0; when
  it closes with any other code, or is ended by a signal, it fails with an \<open>Error\<close> whose
  message is \<open>Command failed: \<close> followed by the command, and which does not hold the
  exit code; when the process could not be spawned it fails with the error of the spawn.
\<close>

theorem runCommand_settles:
  "((\<exists>r. fst (runCommand sh command w) = Inr r)
      \<longleftrightarrow> fst (sh (spawned w) command (files w)) = Close (Some 0))
   \<and> (fst (sh (spawned w) command (files w)) = Close code \<and> code \<noteq> Some 0 \<longrightarrow>
        fst (runCommand sh command w) = Inl (Error (js ''Command failed: '' @ command)))
   \<and> (fst (sh (spawned w) command (files w)) = ErrorEvent e \<longrightarrow>
        fst (runCommand sh command w) = Inl e)"
  by (cases "sh (spawned w) command (files w)"; cases "fst (sh (spawned w) command (files w))")
     (auto simp: runCommand_def on_close_def on_error_def)

theorem runCommand_settles_witness:
  "fst (runCommand (exit_with 0) (js ''true'') empty_world) = Inr (js ''success'')
   \<and> fst (runCommand (exit_with 3) (js ''exit 3'') empty_world)
       = Inl (Error (js ''Command failed: exit 3''))
   \<and> fst (runCommand spawn_fails (js ''true'') empty_world)
       = Inl (SpawnError (js ''spawn sh ENOENT''))"
proof -
  have a: "fst (exit_with 3 (spawned empty_world) (js ''exit 3'') (files empty_world)) = Close (Some 3)"
    by (simp add: exit_with_def)
  have b: "fst (spawn_fails (spawned empty_world) (js ''true'') (files empty_world))
             = ErrorEvent (SpawnError (js ''spawn sh ENOENT''))"
    by (simp add: spawn_fails_def)
  have c: "fst (exit_with 0 (spawned empty_world) (js ''true'') (files empty_world)) = Close (Some 0)"
    by (simp add: exit_with_def)
  have "\<exists>r. fst (runCommand (exit_with 0) (js ''true'') empty_world) = Inr r"
    using runCommand_settles [of "exit_with 0" "js ''true''" empty_world] c by simp
  then have 1: "fst (runCommand (exit_with 0) (js ''true'') empty_world) = Inr (js ''success'')"
    by (auto simp: runCommand_def on_close_def on_error_def exit_with_def)
  show ?thesis
    using 1 runCommand_settles [of "exit_with 3" "js ''exit 3''" empty_world "Some 3"] a
      runCommand_settles [of spawn_fails "js ''true''" empty_world _ "SpawnError (js ''spawn sh ENOENT'')"] b
    by (simp add: js_def)
qed

section \<open>Detection of the repository structure\<close>

lemma check_compose_find:
  "check_compose path_join w repoPath fs structure
   = (case find (\<lambda>file. existsSync w (path_join repoPath file)) fs of
        None \<Rightarrow> structure
      | Some file \<Rightarrow> structure\<lparr>hasDockerCompose := True, composeFile := Some file\<rparr>)"
  by (induction fs) simp_all

text \<open>
  C4: \<open>detectRepoStructure\<close> looks for \<open>docker-compose.yml\<close>, \<open>docker-compose.yaml\<close>,
  \<open>compose.yml\<close>, \<open>compose.yaml\<close> in this order and records the first that exists:
  \<open>composeFile\<close> is the first of the four present in the directory, \<open>hasDockerCompose\<close>
  holds exactly when one is present. When exactly one of the four is present, the flag is
  true and that name is recorded; when none is, the flag is false and no name is recorded.
  \<open>hasDockerfile\<close> is decided independently.
\<close>

theorem detect_compose_descriptor:
  "composeFile (detectRepoStructure path_join repoPath w)
     = find (\<lambda>file. existsSync w (path_join repoPath file)) composeFiles
   \<and> hasDockerCompose (detectRepoStructure path_join repoPath w)
     = (\<exists>file\<in>set composeFiles. existsSync w (path_join repoPath file))
   \<and> hasDockerfile (detectRepoStructure path_join repoPath w)
     = existsSync w (path_join repoPath (js ''Dockerfile''))
   \<and> (name \<in> set composeFiles \<and> existsSync w (path_join repoPath name)
       \<and> (\<forall>other\<in>set composeFiles. other \<noteq> name \<longrightarrow> \<not> existsSync w (path_join repoPath other))
       \<longrightarrow> hasDockerCompose (detectRepoStructure path_join repoPath w)
           \<and> composeFile (detectRepoStructure path_join repoPath w) = Some name)
   \<and> ((\<forall>file\<in>set composeFiles. \<not> existsSync w (path_join repoPath file))
       \<longrightarrow> \<not> hasDockerCompose (detectRepoStructure path_join repoPath w)
           \<and> composeFile (detectRepoStructure path_join repoPath w) = None)"
proof -
  let ?P = "\<lambda>file. existsSync w (path_join repoPath file)"
  have cf: "composeFile (detectRepoStructure path_join repoPath w) = find ?P composeFiles"
    by (simp add: detectRepoStructure_def Let_def check_compose_find split: option.splits)
  have hc: "hasDockerCompose (detectRepoStructure path_join repoPath w)
              = (\<exists>file\<in>set composeFiles. ?P file)"
  proof -
    have "hasDockerCompose (detectRepoStructure path_join repoPath w)
            = (find ?P composeFiles \<noteq> None)"
      by (simp add: detectRepoStructure_def Let_def check_compose_find split: option.splits)
    then show ?thesis by (auto simp: find_None_iff)
  qed
  have hd: "hasDockerfile (detectRepoStructure path_join repoPath w)
              = existsSync w (path_join repoPath (js ''Dockerfile''))"
    by (simp add: detectRepoStructure_def Let_def check_compose_find split: option.splits)
  have one: "find ?P composeFiles = Some name"
    if "name \<in> set composeFiles" "?P name"
      "\<forall>other\<in>set composeFiles. other \<noteq> name \<longrightarrow> \<not> ?P other"
  proof (cases "find ?P composeFiles")
    case None
    then show ?thesis using that by (auto simp: find_None_iff)
  next
    case (Some f)
    then have "f \<in> set composeFiles \<and> ?P f"
      by (auto simp: find_Some_iff)
    then show ?thesis using that Some by auto
  qed
  have none: "find ?P composeFiles = None" if "\<forall>file\<in>set composeFiles. \<not> ?P file"
    using that by (simp add: find_None_iff)
  show ?thesis
    using cf hc hd one none by auto
qed

theorem detect_compose_descriptor_witness:
  "composeFile (detectRepoStructure posix_join app_repo only_compose_yml) = Some (js ''compose.yml'')
   \<and> hasDockerCompose (detectRepoStructure posix_join app_repo only_compose_yml)
   \<and> composeFile (detectRepoStructure posix_join app_repo two_compose_files)
       = Some (js ''docker-compose.yaml'')
   \<and> \<not> hasDockerCompose (detectRepoStructure posix_join app_repo empty_world)
   \<and> composeFile (detectRepoStructure posix_join app_repo empty_world) = None"
proof -
  have a: "js ''compose.yml'' \<in> set composeFiles
           \<and> existsSync only_compose_yml (posix_join app_repo (js ''compose.yml''))
           \<and> (\<forall>other\<in>set composeFiles. other \<noteq> js ''compose.yml'' \<longrightarrow>
                 \<not> existsSync only_compose_yml (posix_join app_repo other))"
    by code_simp
  have b: "find (\<lambda>file. existsSync two_compose_files (posix_join app_repo file)) composeFiles
             = Some (js ''docker-compose.yaml'')"
    by code_simp
  have c: "\<forall>file\<in>set composeFiles. \<not> existsSync empty_world (posix_join app_repo file)"
    by code_simp
  have 1: "hasDockerCompose (detectRepoStructure posix_join app_repo only_compose_yml)
           \<and> composeFile (detectRepoStructure posix_join app_repo only_compose_yml)
               = Some (js ''compose.yml'')"
    using detect_compose_descriptor [of posix_join app_repo only_compose_yml "js ''compose.yml''"] a
    by blast
  have 2: "composeFile (detectRepoStructure posix_join app_repo two_compose_files)
             = Some (js ''docker-compose.yaml'')"
    using detect_compose_descriptor [of posix_join app_repo two_compose_files "[]"] b
    by simp
  have 3: "\<not> hasDockerCompose (detectRepoStructure posix_join app_repo empty_world)
           \<and> composeFile (detectRepoStructure posix_join app_repo empty_world) = None"
    using detect_compose_descriptor [of posix_join app_repo empty_world "[]"] c
    by blast
  show ?thesis using 1 2 3 by simp
qed

section \<open>Cleanup of containers\<close>

text \<open>
  C7: \<open>cleanupExistingContainers\<close> never raises. For every configuration, whatever the
  commands do, the call returns normally; when a command of the \<open>try\<close> block fails, the
  failure is logged with its message and not passed on to the caller.
\<close>

theorem cleanup_never_raises:
  "fst (cleanupExistingContainers sh config w) = Inr ()
   \<and> (\<forall>error w1. cleanup_try sh config w = (Inl error, w1) \<longrightarrow>
         cleanupExistingContainers sh config w
           = (Inr (),
              console_log
                [AStr ([9888, 65039] @ js '' Error cleaning up containers:''),
                 AStr (message error)] w1))"
  by (cases "cleanup_try sh config w"; cases "fst (cleanup_try sh config w)")
     (auto simp: cleanupExistingContainers_def)

text \<open>A run in which no process can be spawned: the first command fails and is logged.\<close>

theorem cleanup_never_raises_witness:
  "fst (cleanupExistingContainers spawn_fails app_config empty_world) = Inr ()
   \<and> last (console (snd (cleanupExistingContainers spawn_fails app_config empty_world)))
       = ConsoleLog [AStr ([9888, 65039] @ js '' Error cleaning up containers:''),
                     AStr (js ''spawn sh ENOENT'')]"
proof -
  have "fst (cleanup_try spawn_fails app_config empty_world)
          = Inl (SpawnError (js ''spawn sh ENOENT''))"
    by code_simp
  then have h: "cleanup_try spawn_fails app_config empty_world
                  = (Inl (SpawnError (js ''spawn sh ENOENT'')),
                     snd (cleanup_try spawn_fails app_config empty_world))"
    by (metis prod.collapse)
  show ?thesis
    using cleanup_never_raises [of spawn_fails app_config empty_world] h
    by (simp add: console_log_def)
qed

section \<open>Validation of the solution type\<close>

text \<open>
  C8 does not hold of the code: a \<open>solutionType\<close> that names a member of
  \<open>Object.prototype\<close>, such as \<open>constructor\<close>, is no registered solution, yet
  \<open>SOLUTION_CONFIGS[solutionType]\<close> is truthy and the check of line 302 lets it pass. The
  run goes on with a configuration whose properties are all \<open>undefined\<close>: it removes
  \<open>/workspace/undefined\<close> and tries to clone before it fails, and the error is that of a
  command (or of the install type), not that of an unknown solution type.
\<close>

theorem install_inherited_key_runs_commands:
  "map_of app_registry (js ''constructor'') = None
   \<and> fst (installWithProgress (exit_with 1) posix_join app_registry (Some (js ''constructor''))
            empty_world)
       = Inl (Error (js ''Command failed: rm -rf /workspace/undefined''))
   \<and> spawned (snd (installWithProgress (exit_with 1) posix_join app_registry
                     (Some (js ''constructor'')) empty_world))
       = [js ''rm -rf /workspace/undefined'']
   \<and> spawned (snd (installWithProgress demo_shell posix_join app_registry
                     (Some (js ''constructor'')) empty_world))
       = [js ''rm -rf /workspace/undefined'',
          js ''git clone -b undefined undefined /workspace/undefined'',
          js ''docker rm -f undefined || true'']"
  by code_simp

text \<open>
  Where the lookup does find nothing, and where the solution type is missing or empty, the
  configuration error is raised before any command is spawned.
\<close>

lemma install_rejects_unresolved:
  "(\<not> truthy solutionType \<longrightarrow>
      fst (installWithProgress sh path_join SOLUTION_CONFIGS solutionType w)
        = Inl (Error (js ''Solution type is required''))
      \<and> spawned (snd (installWithProgress sh path_join SOLUTION_CONFIGS solutionType w))
        = spawned w)
   \<and> (truthy solutionType \<and> lookup_config SOLUTION_CONFIGS (tmpl solutionType) = None \<longrightarrow>
      fst (installWithProgress sh path_join SOLUTION_CONFIGS solutionType w)
        = Inl (Error (js ''Unknown solution type: '' @ tmpl solutionType))
      \<and> spawned (snd (installWithProgress sh path_join SOLUTION_CONFIGS solutionType w))
        = spawned w)"
  by (simp add: installWithProgress_def install_try_def io_throw_def handleError_def
      console_error_def)

section \<open>Selection of the deployment path\<close>

lemma detect_hasDockerCompose:
  "hasDockerCompose (detectRepoStructure path_join repoPath w)
   = (\<exists>file\<in>set composeFiles. existsSync w (path_join repoPath file))"
proof -
  have "hasDockerCompose (detectRepoStructure path_join repoPath w)
          = (find (\<lambda>file. existsSync w (path_join repoPath file)) composeFiles \<noteq> None)"
    by (simp add: detectRepoStructure_def Let_def check_compose_find split: option.splits)
  then show ?thesis by (auto simp: find_None_iff)
qed

lemma detect_hasDockerfile:
  "hasDockerfile (detectRepoStructure path_join repoPath w)
   = existsSync w (path_join repoPath (js ''Dockerfile''))"
  by (simp add: detectRepoStructure_def Let_def check_compose_find split: option.splits)

text \<open>
  C5: once the env files are prepared, \<open>installDockerComposeService\<close> goes on in exactly
  one of three ways, decided by the files then present in the checkout as section 4.5
  says: the compose path when one of the four compose files exists, whether or not a
  \<open>Dockerfile\<close> exists as well; the single-container path when none of them but a
  \<open>Dockerfile\<close> exists; the error \<open>No Docker configuration found in repository\<close> when
  neither exists. A run whose preparation throws ends there, before the structure is
  detected.
\<close>

theorem strategy_selection:
  "installDockerComposeService sh path_join config repoPath w0 =
     (case compose_prepare sh repoPath w0 of
        (Inl e, w) \<Rightarrow> (Inl e, w)
      | (Inr _, w) \<Rightarrow>
          (case spec_strategy
                  (\<exists>file\<in>set composeFiles. existsSync w (path_join repoPath file))
                  (existsSync w (path_join repoPath (js ''Dockerfile''))) of
             ComposePath \<Rightarrow>
               compose_path sh (detectRepoStructure path_join repoPath w) repoPath w
           | SinglePath \<Rightarrow>
               io_bind (io_log ([55357, 56550] @ js '' Using Dockerfile...''))
                 (\<lambda>_. installDockerService sh config repoPath) w
           | NoConfiguration \<Rightarrow>
               (Inl (Error (js ''No Docker configuration found in repository'')), w)))"
  by (simp add: installDockerComposeService_def io_bind_def select_path_def spec_strategy_def
      detect_hasDockerCompose detect_hasDockerfile io_throw_def
      split: prod.splits sum.splits)

text \<open>
  Scenario B (compose file and \<open>Dockerfile\<close>): the compose tool is started and no image is
  built. Scenario C (\<open>Dockerfile\<close> only): the image is built. An empty checkout: the error.
\<close>

theorem strategy_selection_witness:
  "fst (installDockerComposeService demo_shell posix_join app_config app_repo scenario_B) = Inr ()
   \<and> js ''cd /workspace/app && docker-compose up -d --build''
       \<in> set (spawned (snd (installDockerComposeService demo_shell posix_join app_config app_repo
                              scenario_B)))
   \<and> js ''docker build -t app-image /workspace/app''
       \<notin> set (spawned (snd (installDockerComposeService demo_shell posix_join app_config app_repo
                              scenario_B)))
   \<and> js ''docker build -t app-image /workspace/app''
       \<in> set (spawned (snd (installDockerComposeService demo_shell posix_join app_config app_repo
                              scenario_C)))
   \<and> fst (installDockerComposeService demo_shell posix_join app_config app_repo empty_world)
       = Inl (Error (js ''No Docker configuration found in repository''))"
  by (subst strategy_selection) code_simp

section \<open>The single-container installation\<close>

lemma io_bind_InrE:
  assumes "io_bind m f w = (Inr y, w')"
  obtains x w1 where "m w = (Inr x, w1)" and "f x w1 = (Inr y, w')"
  using assms by (auto simp: io_bind_def split: prod.splits sum.splits)

lemma runCommand_InrD:
  "runCommand sh command w = (Inr r, w1) \<Longrightarrow>
   sh (spawned w) command (files w) = (Close (Some 0), files w1)"
  by (auto simp: runCommand_def on_close_def on_error_def
      split: prod.splits child_event.splits if_splits)

lemma preserves_bind:
  assumes "preserves p m" and "\<And>x. preserves p (f x)"
  shows "preserves p (io_bind m f)"
  unfolding preserves_def
proof (intro allI impI)
  fix w r w'
  assume run: "io_bind m f w = (r, w')"
  obtain r1 w1 where m: "m w = (r1, w1)" by (cases "m w")
  then have 1: "files w1 p = files w p" using assms(1) by (simp add: preserves_def)
  show "files w' p = files w p"
  proof (cases r1)
    case (Inl e)
    then show ?thesis using run m 1 by (simp add: io_bind_def)
  next
    case (Inr x)
    then have "f x w1 = (r, w')" using run m by (simp add: io_bind_def)
    then have "files w' p = files w1 p" using assms(2) [of x] by (simp add: preserves_def)
    then show ?thesis using 1 by simp
  qed
qed

lemma preserves_return: "preserves p (io_return x)"
  by (simp add: preserves_def io_return_def)

lemma preserves_log: "preserves p (io_log line)"
  by (auto simp: preserves_def io_log_def console_log_def)

lemma preserves_if: "preserves p a \<Longrightarrow> preserves p b \<Longrightarrow> preserves p (if c then a else b)"
  by simp

lemma preserves_runCommand:
  assumes "\<forall>history fs ev fs'. sh history command fs = (ev, fs') \<longrightarrow> fs' p = fs p"
  shows "preserves p (runCommand sh command)"
  using assms by (auto simp: preserves_def runCommand_def split: prod.splits)

lemma preserves_merge:
  "p \<noteq> outputPath \<Longrightarrow> preserves p (mergeEnvironmentFiles rootEnvPath localEnvPath outputPath)"
  unfolding preserves_def
  by (metis merge_files merge_try_frame snd_conv)

lemma preserves_installDockerService:
  assumes "\<forall>command\<in>set (single_container_commands config repoPath).
             \<forall>history fs ev fs'. sh history command fs = (ev, fs') \<longrightarrow> fs' p = fs p"
    and "p \<noteq> repoPath @ js ''/.env.temp''"
  shows "preserves p (installDockerService sh config repoPath)"
  unfolding installDockerService_def Let_def
  using assms
  by (intro preserves_bind preserves_log preserves_return preserves_if preserves_merge
      preserves_runCommand)
     (simp_all add: single_container_commands_def)

text \<open>
  C6 does not hold of the code: for a configuration whose example env file is \<open>.env.temp\<close>,
  the very file the merge writes to, the run succeeds and leaves the merge in the working
  env file. The checkout holds the example \<open>A=\<close> and the root env file holds \<open>A=secret\<close>; the
  merge overwrites the example with \<open>A=secret\<close>, the restoring \<open>cp\<close> of line 232 copies that
  into \<open>.env\<close>, and line 233 deletes the example. Lines 206 and 231 say the working env file
  is to be exactly like the example, and line 90 that the merge does not modify original
  files; the fixed temp name is not checked against the example's name.
\<close>

theorem example_named_temp_leaks_merge:
  "envFile temp_as_example = Some (js ''.env.temp'')
   \<and> files temp_as_example_world (js ''/workspace/app/.env.temp'') = Some (js ''A='')
   \<and> files temp_as_example_world (js ''/workspace/.env'') = Some (js ''A=secret'')
   \<and> fst (installDockerService demo_shell temp_as_example app_repo temp_as_example_world) = Inr ()
   \<and> files (snd (installDockerService demo_shell temp_as_example app_repo temp_as_example_world))
        (js ''/workspace/app/.env'') = Some (js ''A=secret'')
   \<and> files (snd (installDockerService demo_shell temp_as_example app_repo temp_as_example_world))
        (js ''/workspace/app/.env.temp'') = None"
  by code_simp

text \<open>
  For every other example env file the claim holds of the code, given what the commands
  do. Let the example env file be another file than \<open>.env.temp\<close>; let no command of the run
  change the example file; let the restoring \<open>cp\<close> exit with 0 only when it has made the
  working \<open>.env\<close> a copy of the example file, and \<open>rm -f\<close> only when it has deleted the temp
  file and nothing else. Then after every successful run of \<open>installDockerService\<close> the
  example file is what it was before the run, the working \<open>.env\<close> holds that same text, and
  the temp file of the merge does not exist.
\<close>

lemma single_container_restores_env:
  assumes cp: "\<forall>history fs fs'.
                sh history (cp_command (repoPath @ js ''/'' @ example) (repoPath @ js ''/.env'')) fs
                  = (Close (Some 0), fs') \<longrightarrow>
                fs' (repoPath @ js ''/.env'') = fs' (repoPath @ js ''/'' @ example)
                \<and> fs' (repoPath @ js ''/'' @ example) \<noteq> None"
    and rm: "\<forall>history fs fs'. sh history (rm_command (repoPath @ js ''/.env.temp'')) fs
                  = (Close (Some 0), fs') \<longrightarrow>
                fs' = fs(repoPath @ js ''/.env.temp'' := None)"
    and keep: "\<forall>command\<in>set (single_container_commands config repoPath).
                 \<forall>history fs ev fs'. sh history command fs = (ev, fs') \<longrightarrow>
                   fs' (repoPath @ js ''/'' @ example) = fs (repoPath @ js ''/'' @ example)"
    and example: "envFile config = Some example" "example \<noteq> js ''.env.temp''"
    and run: "installDockerService sh config repoPath w = (Inr (), w')"
  shows "files w' (repoPath @ js ''/'' @ example) = files w (repoPath @ js ''/'' @ example)
         \<and> files w' (repoPath @ js ''/.env'') = files w (repoPath @ js ''/'' @ example)
         \<and> files w (repoPath @ js ''/'' @ example) \<noteq> None
         \<and> files w' (repoPath @ js ''/.env.temp'') = None"
proof -
  from run obtain w8 w9 x y where
    c: "runCommand sh (cp_command (repoPath @ js ''/'' @ example) (repoPath @ js ''/.env'')) w8
          = (Inr x, w9)"
    and r: "runCommand sh (rm_command (repoPath @ js ''/.env.temp'')) w9 = (Inr y, w')"
    unfolding installDockerService_def Let_def
    by (elim io_bind_InrE) (auto simp: io_return_def example tmpl_def)
  have c': "files w9 (repoPath @ js ''/.env'') = files w9 (repoPath @ js ''/'' @ example)
            \<and> files w9 (repoPath @ js ''/'' @ example) \<noteq> None"
    using cp runCommand_InrD [OF c] by blast
  have r': "files w' = (files w9)(repoPath @ js ''/.env.temp'' := None)"
    using rm runCommand_InrD [OF r] by blast
  have d1: "repoPath @ js ''/.env'' \<noteq> repoPath @ js ''/.env.temp''"
    by (simp add: js_def)
  have d2: "repoPath @ js ''/'' @ example \<noteq> repoPath @ js ''/.env.temp''"
    using example(2) by (simp add: js_def)
  have "preserves (repoPath @ js ''/'' @ example) (installDockerService sh config repoPath)"
    using keep d2 by (rule preserves_installDockerService)
  then have same: "files w' (repoPath @ js ''/'' @ example) = files w (repoPath @ js ''/'' @ example)"
    using run by (simp add: preserves_def)
  show ?thesis using c' r' d1 d2 same by simp
qed

text \<open>
  Scenario C with \<open>demo_shell\<close>: the hypotheses hold, and after the run the working env
  file is the example again, not the merge.
\<close>

lemma single_container_restores_env_scenario_C:
  "fst (installDockerService demo_shell app_config app_repo scenario_C) = Inr ()
   \<and> files (snd (installDockerService demo_shell app_config app_repo scenario_C))
        (js ''/workspace/app/.env'') = Some (js ''A=\<newline>B=2'')
   \<and> files (snd (installDockerService demo_shell app_config app_repo scenario_C))
        (js ''/workspace/app/.env.example'') = Some (js ''A=\<newline>B=2'')
   \<and> files (snd (installDockerService demo_shell app_config app_repo scenario_C))
        (js ''/workspace/app/.env.temp'') = None"
proof -
  let ?w' = "snd (installDockerService demo_shell app_config app_repo scenario_C)"
  let ?cp = "js ''cp /workspace/app/.env.example /workspace/app/.env''"
  let ?cp_temp = "js ''cp /workspace/app/.env.temp /workspace/app/.env''"
  let ?build = "js ''docker build -t app-image /workspace/app''"
  let ?run = "js ''docker run -d --name app-container --network weam_app-network -p 3000:3000 app-image''"
  let ?rm = "js ''rm -f /workspace/app/.env.temp''"
  have cmds: "single_container_commands app_config app_repo = [?cp, ?cp_temp, ?build, ?run, ?rm]"
    by code_simp
  have words:
    "split_on 32 ?cp = [js ''cp'', js ''/workspace/app/.env.example'', js ''/workspace/app/.env'']"
    "split_on 32 ?cp_temp = [js ''cp'', js ''/workspace/app/.env.temp'', js ''/workspace/app/.env'']"
    "split_on 32 ?build = [js ''docker'', js ''build'', js ''-t'', js ''app-image'', js ''/workspace/app'']"
    "split_on 32 ?run
       = [js ''docker'', js ''run'', js ''-d'', js ''--name'', js ''app-container'', js ''--network'',
          js ''weam_app-network'', js ''-p'', js ''3000:3000'', js ''app-image'']"
    "split_on 32 ?rm = [js ''rm'', js ''-f'', js ''/workspace/app/.env.temp'']"
    by code_simp+
  have paths: "app_repo @ js ''/'' @ js ''.env.example'' = js ''/workspace/app/.env.example''"
    "app_repo @ js ''/.env'' = js ''/workspace/app/.env''"
    "app_repo @ js ''/.env.temp'' = js ''/workspace/app/.env.temp''"
    "cp_command (js ''/workspace/app/.env.example'') (js ''/workspace/app/.env'') = ?cp"
    "rm_command (js ''/workspace/app/.env.temp'') = ?rm"
    by code_simp+
  have cp: "\<forall>history fs fs'. demo_shell history
                 (cp_command (app_repo @ js ''/'' @ js ''.env.example'') (app_repo @ js ''/.env'')) fs
               = (Close (Some 0), fs') \<longrightarrow>
             fs' (app_repo @ js ''/.env'') = fs' (app_repo @ js ''/'' @ js ''.env.example'')
             \<and> fs' (app_repo @ js ''/'' @ js ''.env.example'') \<noteq> None"
    unfolding paths demo_shell_def words by (auto simp: js_def split: if_splits)
  have rm: "\<forall>history fs fs'. demo_shell history (rm_command (app_repo @ js ''/.env.temp'')) fs
               = (Close (Some 0), fs') \<longrightarrow>
             fs' = fs(app_repo @ js ''/.env.temp'' := None)"
    unfolding paths demo_shell_def words by (auto simp: js_def split: if_splits)
  have keep: "\<forall>command\<in>set (single_container_commands app_config app_repo).
                \<forall>history fs ev fs'. demo_shell history command fs = (ev, fs') \<longrightarrow>
                  fs' (app_repo @ js ''/'' @ js ''.env.example'')
                    = fs (app_repo @ js ''/'' @ js ''.env.example'')"
    unfolding cmds paths demo_shell_def
    by (simp add: words) (auto simp: js_def split: if_splits)
  have e1: "envFile app_config = Some (js ''.env.example'')" by code_simp
  have e2: "js ''.env.example'' \<noteq> js ''.env.temp''" by code_simp
  have ok: "fst (installDockerService demo_shell app_config app_repo scenario_C) = Inr ()"
    by code_simp
  then have run: "installDockerService demo_shell app_config app_repo scenario_C = (Inr (), ?w')"
    by (metis prod.collapse)
  have ex: "files scenario_C (js ''/workspace/app/.env.example'') = Some (js ''A=\<newline>B=2'')"
    by code_simp
  show ?thesis
    using single_container_restores_env [OF cp rm keep e1 e2 run] ok ex by (simp add: paths)
qed

end
